theory Spec2Isabelle
  imports Complex_Main "HOL-Library.Word"
begin

unbundle bit_operations_syntax

section \<open>Platform types and macros used by volume\_controller.cc\<close>

text \<open>
  The source is a thin adapter between a scripting host and two operating-system
  interfaces.  Everything the operating system does is a parameter of the model (a stub);
  everything the adapter does (checks, conversions, the order of the calls, the error
  strings) is translated from the source.
\<close>

type_synonym HRESULT = "32 word"  \<comment> \<open>\<open>long\<close>, read as a signed value\<close>
type_synonym DWORD = "32 word"
type_synonym UINT = "32 word"
type_synonym BOOL = "32 word"     \<comment> \<open>\<open>typedef int BOOL\<close>\<close>
type_synonym ptr = "64 word"      \<comment> \<open>interface pointers, window handles, \<open>WPARAM\<close>, \<open>LRESULT\<close>\<close>

text \<open>
  The result-code macros come from the platform header \<open>winerror.h\<close>, which is not part
  of the repository; they are written out here as that header defines them.
  \<open>#define FAILED(hr) (((HRESULT)(hr)) < 0)\<close>.
\<close>

definition FAILED :: "HRESULT \<Rightarrow> bool" where
  "FAILED hr = (sint hr < 0)"

definition ERROR_SUCCESS :: DWORD where
  "ERROR_SUCCESS = 0"

definition FACILITY_WIN32 :: "32 word" where
  "FACILITY_WIN32 = 7"

text \<open>
  \<open>HRESULT_FROM_WIN32(x)\<close> of the same header:
  \<open>(HRESULT)(x) <= 0 ? (HRESULT)(x) : (HRESULT)(((x) & 0x0000FFFF) | (FACILITY_WIN32 << 16) | 0x80000000)\<close>.
\<close>

definition HRESULT_FROM_WIN32 :: "DWORD \<Rightarrow> HRESULT" where
  "HRESULT_FROM_WIN32 x =
     (if sint x \<le> 0 then x
      else (x AND 0x0000FFFF) OR push_bit 16 FACILITY_WIN32 OR 0x80000000)"

definition WM_COPYDATA :: UINT where
  "WM_COPYDATA = 0x004A"

definition SMTO_ABORTIFHUNG :: UINT where
  "SMTO_ABORTIFHUNG = 0x0002"

datatype EDataFlow = eRender | eCapture | eAll
datatype ERole = eConsole | eMultimedia | eCommunications

subsection \<open>Strings\<close>

text \<open>
  A \<open>std::string\<close> is a list of bytes.  \<open>c_str\<close> is what a consumer of the
  \<open>const char *\<close> sees: the bytes before the first NUL.  \<open>strlen\<close> counts them.
\<close>

definition c_str :: "string \<Rightarrow> string" where
  "c_str s = takeWhile (\<lambda>c. c \<noteq> CHR 0x00) s"

definition strlen :: "string \<Rightarrow> nat" where
  "strlen s = length (c_str s)"

definition hex_digit :: "nat \<Rightarrow> char" where
  "hex_digit d = ''0123456789ABCDEF'' ! d"

text \<open>The conversion \<open>%X\<close> of \<open>snprintf\<close>: upper-case hexadecimal, no padding.\<close>

fun hexX :: "nat \<Rightarrow> string" where
  "hexX n = (if n < 16 then [hex_digit n] else hexX (n div 16) @ [hex_digit (n mod 16)])"

declare hexX.simps [simp del]

text \<open>
  \<open>string_format\<close> wraps \<open>snprintf\<close>.  Both call sites pass the format
  \<open>"%s (0x%X)"\<close> with a C string and an \<open>HRESULT\<close>; the model is that instance.
  \<open>%X\<close> reads the 32-bit argument as unsigned.
\<close>

definition string_format :: "string \<Rightarrow> HRESULT \<Rightarrow> string" where
  "string_format s hr = c_str s @ '' (0x'' @ hexX (unat hr) @ '')''"

text \<open>A thrown \<open>std::string\<close> is the left summand.\<close>

definition checkErrors :: "HRESULT \<Rightarrow> string \<Rightarrow> string + unit" where
  "checkErrors hr error_message =
     (if FAILED hr then Inl (string_format error_message hr) else Inr ())"

subsection \<open>Floating-point values\<close>

text \<open>
  A \<open>float\<close> or \<open>double\<close> is modelled by the value it denotes: a real number, an
  infinity or NaN.  Every machine value denotes one of these, so a statement about all
  values of this type covers all machine values.  The comparisons are those of the
  hardware: every ordered comparison with NaN is false.
\<close>

datatype float = Finite real | PosInf | NegInf | NaN

fun float_less :: "float \<Rightarrow> float \<Rightarrow> bool" where
  "float_less NaN _ = False"
| "float_less _ NaN = False"
| "float_less (Finite x) (Finite y) = (x < y)"
| "float_less (Finite _) PosInf = True"
| "float_less (Finite _) NegInf = False"
| "float_less PosInf _ = False"
| "float_less NegInf NegInf = False"
| "float_less NegInf _ = True"

definition float_le :: "float \<Rightarrow> float \<Rightarrow> bool" where
  "float_le a b = (a \<noteq> NaN \<and> b \<noteq> NaN \<and> \<not> float_less b a)"

section \<open>The operating system as a stub\<close>

text \<open>
  Each field is one entry point the source calls, as a function of the operating
  system's state \<open>'w\<close>.  Output parameters are part of the result; \<open>None\<close> means the
  call left the caller's variable as it was.
\<close>

record COPYDATASTRUCT =
  dwData :: ptr      \<comment> \<open>\<open>ULONG_PTR\<close>\<close>
  cbData :: DWORD
  lpData :: string   \<comment> \<open>the bytes \<open>lpData\<close> points to, up to the terminating NUL\<close>

record 'w os_stub =
  CoCreateInstance :: "'w \<Rightarrow> (HRESULT \<times> ptr) \<times> 'w"
  GetDefaultAudioEndpoint :: "ptr \<Rightarrow> EDataFlow \<Rightarrow> ERole \<Rightarrow> 'w \<Rightarrow> (HRESULT \<times> ptr) \<times> 'w"
  Activate :: "ptr \<Rightarrow> 'w \<Rightarrow> (HRESULT \<times> ptr) \<times> 'w"
  GetMute :: "ptr \<Rightarrow> 'w \<Rightarrow> (HRESULT \<times> BOOL option) \<times> 'w"
  SetMute :: "ptr \<Rightarrow> BOOL \<Rightarrow> 'w \<Rightarrow> HRESULT \<times> 'w"
  GetMasterVolumeLevelScalar :: "ptr \<Rightarrow> 'w \<Rightarrow> (HRESULT \<times> float option) \<times> 'w"
  SetMasterVolumeLevelScalar :: "ptr \<Rightarrow> float \<Rightarrow> 'w \<Rightarrow> HRESULT \<times> 'w"
  FindWindowA :: "string option \<Rightarrow> string \<Rightarrow> 'w \<Rightarrow> ptr \<times> 'w"
  SetLastError :: "DWORD \<Rightarrow> 'w \<Rightarrow> 'w"
  SendMessageTimeoutA ::
    "ptr \<Rightarrow> UINT \<Rightarrow> ptr \<Rightarrow> COPYDATASTRUCT \<Rightarrow> UINT \<Rightarrow> UINT \<Rightarrow> ptr \<Rightarrow> 'w \<Rightarrow> ptr \<times> 'w"
  GetLastError :: "'w \<Rightarrow> DWORD"

text \<open>
  The calls in the order the program makes them, with the arguments that vary.  The
  class and interface identifiers, \<open>CLSCTX_INPROC_SERVER\<close> and the \<open>NULL\<close> event
  context of the two setters are constants of the source and are left out.
\<close>

datatype os_call =
    Call_CoCreateInstance
  | Call_GetDefaultAudioEndpoint ptr EDataFlow ERole
  | Call_Activate ptr
  | Call_GetMute ptr
  | Call_SetMute ptr BOOL
  | Call_GetMasterVolumeLevelScalar ptr
  | Call_SetMasterVolumeLevelScalar ptr float
  | Call_FindWindowA "string option" string
  | Call_SetLastError DWORD
  | Call_SendMessageTimeoutA ptr UINT ptr COPYDATASTRUCT UINT UINT ptr
  | Call_GetLastError

record 'w world =
  calls :: "os_call list"    \<comment> \<open>every operating-system call made so far, oldest first\<close>
  cout :: "string list"      \<comment> \<open>lines written to \<open>std::cout\<close>\<close>
  os_state :: 'w

definition invoke :: "os_call \<Rightarrow> ('w \<Rightarrow> 'a \<times> 'w) \<Rightarrow> 'w world \<Rightarrow> 'a \<times> 'w world" where
  "invoke c f w =
     (case f (os_state w) of (r, s) \<Rightarrow> (r, w\<lparr>calls := calls w @ [c], os_state := s\<rparr>))"

section \<open>class VolumeControl\<close>

record VolumeControl =
  device :: ptr   \<comment> \<open>\<open>ComPtr<IAudioEndpointVolume>\<close>\<close>

text \<open>
  The constructor.  \<open>checkErrors\<close> throws out of it, so a failing step ends the
  construction and no object exists.
\<close>

definition VolumeControl_ctor :: "'w os_stub \<Rightarrow> 'w world \<Rightarrow> (string + VolumeControl) \<times> 'w world" where
  "VolumeControl_ctor os w =
     (case invoke Call_CoCreateInstance (CoCreateInstance os) w of
        ((hr1, deviceEnumerator), w1) \<Rightarrow>
     (case checkErrors hr1
             ''Error when trying to get a handle to MMDeviceEnumerator device enumerator'' of
        Inl e \<Rightarrow> (Inl e, w1)
      | Inr _ \<Rightarrow>
     (case invoke (Call_GetDefaultAudioEndpoint deviceEnumerator eRender eConsole)
             (GetDefaultAudioEndpoint os deviceEnumerator eRender eConsole) w1 of
        ((hr2, defaultDevice), w2) \<Rightarrow>
     (case checkErrors hr2 ''Error when trying to get a handle to the default audio enpoint'' of
        Inl e \<Rightarrow> (Inl e, w2)
      | Inr _ \<Rightarrow>
     (case invoke (Call_Activate defaultDevice) (Activate os defaultDevice) w2 of
        ((hr3, dev), w3) \<Rightarrow>
     (case checkErrors hr3 ''Error when trying to get a handle to the volume endpoint'' of
        Inl e \<Rightarrow> (Inl e, w3)
      | Inr _ \<Rightarrow> (Inr \<lparr>device = dev\<rparr>, w3)))))))"

definition isMuted :: "'w os_stub \<Rightarrow> VolumeControl \<Rightarrow> 'w world \<Rightarrow> (string + BOOL) \<times> 'w world" where
  "isMuted os this w =
     (case invoke (Call_GetMute (device this)) (GetMute os (device this)) w of
        ((hr, out), w1) \<Rightarrow>
          (let muted = (case out of None \<Rightarrow> 0 | Some m \<Rightarrow> m) in
           case checkErrors hr ''getting muted state'' of
             Inl e \<Rightarrow> (Inl e, w1)
           | Inr _ \<Rightarrow> (Inr muted, w1)))"

definition setMuted :: "'w os_stub \<Rightarrow> VolumeControl \<Rightarrow> BOOL \<Rightarrow> 'w world \<Rightarrow> (string + unit) \<times> 'w world" where
  "setMuted os this muted w =
     (case invoke (Call_SetMute (device this) muted) (SetMute os (device this) muted) w of
        (hr, w1) \<Rightarrow> (checkErrors hr ''setting mute'', w1))"

definition getVolume :: "'w os_stub \<Rightarrow> VolumeControl \<Rightarrow> 'w world \<Rightarrow> (string + float) \<times> 'w world" where
  "getVolume os this w =
     (case invoke (Call_GetMasterVolumeLevelScalar (device this))
             (GetMasterVolumeLevelScalar os (device this)) w of
        ((hr, out), w1) \<Rightarrow>
          (let currentVolume = (case out of None \<Rightarrow> Finite 0 | Some v \<Rightarrow> v) in
           case checkErrors hr ''getting volume'' of
             Inl e \<Rightarrow> (Inl e, w1)
           | Inr _ \<Rightarrow> (Inr currentVolume, w1)))"

definition setVolume :: "'w os_stub \<Rightarrow> VolumeControl \<Rightarrow> float \<Rightarrow> 'w world \<Rightarrow> (string + unit) \<times> 'w world" where
  "setVolume os this volume w =
     (if float_less volume (Finite 0) \<or> float_less (Finite 1) volume
      then (Inl ''Volume needs to be between 0.0 and 1.0 inclusive'', w)
      else
        (case invoke (Call_SetMasterVolumeLevelScalar (device this) volume)
                (SetMasterVolumeLevelScalar os (device this) volume) w of
           (hr, w1) \<Rightarrow> (checkErrors hr ''setting volume'', w1)))"

section \<open>class VolumeControlWrapper: the binding to the scripting host\<close>

text \<open>
  What a native method hands back to the script: a value through
  \<open>info.GetReturnValue().Set\<close>, an exception through \<open>Nan::ThrowError\<close>; \<open>Aborts\<close> is
  the end of the process when \<open>ToChecked\<close> or \<open>ToLocalChecked\<close> meets a failed
  conversion.  \<open>Set\<close> is overloaded on \<open>bool\<close>, \<open>double\<close>, \<open>int32_t\<close> and handles: a
  \<open>float\<close> goes to the \<open>double\<close> overload and a \<open>BOOL\<close> (an \<open>int\<close>) to the \<open>int32_t\<close>
  overload, so the script receives a number in both cases; the source never selects the
  \<open>bool\<close> overload.
\<close>

datatype js_value = Undefined | Boolean bool | Number_double float | Number_int32 "32 word" | This

datatype js_result = Returns js_value | Throws string | Aborts

text \<open>
  The conversions of the host's values \<open>'j\<close>, which belong to the host and not to the
  source: \<open>Nan::To<double>\<close>, \<open>Nan::To<bool>\<close>, \<open>Nan::To<v8::String>\<close> followed by
  \<open>Nan::Utf8String\<close> (the bytes of the buffer, which may contain NUL), and the
  narrowing of a \<open>double\<close> to a \<open>float\<close> at the call of \<open>setVolume\<close>.
\<close>

record 'j host =
  To_double :: "'j \<Rightarrow> float option"
  To_bool :: "'j \<Rightarrow> bool"
  To_Utf8String :: "'j \<Rightarrow> string option"
  double_to_float :: "float \<Rightarrow> float"

definition BOOL_of_bool :: "bool \<Rightarrow> BOOL" where
  "BOOL_of_bool b = (if b then 1 else 0)"

record VolumeControlWrapper =
  device :: VolumeControl

text \<open>
  The receiver \<open>obj\<close> of a method is the wrapper that \<open>Unwrap\<close> finds in
  \<open>info.Holder()\<close>; \<open>info\<close> is the list of arguments.
\<close>

definition New ::
  "'w os_stub \<Rightarrow> bool \<Rightarrow> 'w world \<Rightarrow> (js_result \<times> VolumeControlWrapper option) \<times> 'w world" where
  "New os IsConstructCall w =
     (if IsConstructCall then
        (let w0 = w\<lparr>cout := cout w @ [''Constructing new object'']\<rparr> in
         case VolumeControl_ctor os w0 of
           (Inl e, w1) \<Rightarrow> ((Throws e, None), w1)
         | (Inr d, w1) \<Rightarrow>
             ((Returns This, Some \<lparr>device = d\<rparr>),
              w1\<lparr>cout := cout w1 @ [''Constructed new object'']\<rparr>))
      else ((Throws ''The constructor cannot be called as a function.'', None), w))"

definition GetVolume ::
  "'w os_stub \<Rightarrow> 'j list \<Rightarrow> VolumeControlWrapper \<Rightarrow> 'w world \<Rightarrow> js_result \<times> 'w world" where
  "GetVolume os info obj w =
     (case getVolume os (VolumeControlWrapper.device obj) w of
        (Inl e, w1) \<Rightarrow> (Throws e, w1)
      | (Inr v, w1) \<Rightarrow> (Returns (Number_double v), w1))"

definition SetVolume ::
  "'j host \<Rightarrow> 'w os_stub \<Rightarrow> 'j list \<Rightarrow> VolumeControlWrapper \<Rightarrow> 'w world \<Rightarrow> js_result \<times> 'w world" where
  "SetVolume host os info obj w =
     (if length info \<noteq> 1 then (Throws ''Exactly one number parameter is required.'', w)
      else
        (case To_double host (info ! 0) of
           None \<Rightarrow> (Aborts, w)
         | Some volume \<Rightarrow>
             (case setVolume os (VolumeControlWrapper.device obj) (double_to_float host volume) w of
                (Inl e, w1) \<Rightarrow> (Throws e, w1)
              | (Inr _, w1) \<Rightarrow> (Returns Undefined, w1))))"

definition IsMuted ::
  "'w os_stub \<Rightarrow> 'j list \<Rightarrow> VolumeControlWrapper \<Rightarrow> 'w world \<Rightarrow> js_result \<times> 'w world" where
  "IsMuted os info obj w =
     (case isMuted os (VolumeControlWrapper.device obj) w of
        (Inl e, w1) \<Rightarrow> (Throws e, w1)
      | (Inr m, w1) \<Rightarrow> (Returns (Number_int32 m), w1))"

definition SetMuted ::
  "'j host \<Rightarrow> 'w os_stub \<Rightarrow> 'j list \<Rightarrow> VolumeControlWrapper \<Rightarrow> 'w world \<Rightarrow> js_result \<times> 'w world" where
  "SetMuted host os info obj w =
     (if length info \<noteq> 1 then (Throws ''Exactly one boolean parameter is required.'', w)
      else
        (let muted = To_bool host (info ! 0) in
         case setMuted os (VolumeControlWrapper.device obj) (BOOL_of_bool muted) w of
           (Inl e, w1) \<Rightarrow> (Throws e, w1)
         | (Inr _, w1) \<Rightarrow> (Returns Undefined, w1)))"

definition CopyDataID :: ptr where
  "CopyDataID = 24"

definition widowName :: string where
  "widowName = ''Translator CopyData Target''"

definition ExecTranslatorMacro ::
  "'j host \<Rightarrow> 'w os_stub \<Rightarrow> 'j list \<Rightarrow> VolumeControlWrapper \<Rightarrow> 'w world \<Rightarrow> js_result \<times> 'w world" where
  "ExecTranslatorMacro host os info obj w =
     (if length info \<noteq> 1 then (Throws ''Exactly one string parameter is required.'', w)
      else
        (case invoke (Call_FindWindowA None (c_str widowName))
                (FindWindowA os None (c_str widowName)) w of
           (hwnd, w1) \<Rightarrow>
        if hwnd = 0
        then (Throws ''Could not find running Translator instance to send message to'', w1)
        else
        (case To_Utf8String host (info ! 0) of
           None \<Rightarrow> (Aborts, w1)
         | Some v8MacroName \<Rightarrow>
        (let wstrMacroName = ''Macro: '' @ c_str v8MacroName;
             lpszMacroName = c_str wstrMacroName;
             cds = \<lparr>dwData = CopyDataID,
                    cbData = of_nat (strlen lpszMacroName),
                    lpData = lpszMacroName\<rparr>;
             w2 = snd (invoke (Call_SetLastError ERROR_SUCCESS)
                         (\<lambda>s. ((), SetLastError os ERROR_SUCCESS s)) w1);
             lpdwResult = 0
         in
        (case invoke (Call_SendMessageTimeoutA hwnd WM_COPYDATA 0 cds SMTO_ABORTIFHUNG 5000 lpdwResult)
                (SendMessageTimeoutA os hwnd WM_COPYDATA 0 cds SMTO_ABORTIFHUNG 5000 lpdwResult) w2 of
           (ret, w3) \<Rightarrow>
        (case invoke Call_GetLastError (\<lambda>s. (GetLastError os s, s)) w3 of
           (err, w4) \<Rightarrow>
        (let hr = HRESULT_FROM_WIN32 err in
         if ret = 0 \<and> FAILED hr
         then (Throws (string_format ''Failed to execute Translator Macro'' hr), w4)
         else (Returns Undefined, w4))))))))"

subsection \<open>Registration\<close>

datatype constructor_callback = cb_New

datatype callback =
  cb_GetVolume | cb_SetVolume | cb_IsMuted | cb_SetMuted | cb_ExecTranslatorMacro

text \<open>
  A function template: the native function that runs when the class is called (with or
  without \<open>new\<close>), the class name, and the methods of the prototype.
\<close>

record FunctionTemplate =
  CallHandler :: constructor_callback
  ClassName :: string
  InternalFieldCount :: nat
  PrototypeMethods :: "string \<rightharpoonup> callback"

definition New_FunctionTemplate :: "constructor_callback \<Rightarrow> FunctionTemplate" where
  "New_FunctionTemplate cb =
     \<lparr>CallHandler = cb, ClassName = [], InternalFieldCount = 0, PrototypeMethods = Map.empty\<rparr>"

definition SetPrototypeMethod :: "FunctionTemplate \<Rightarrow> string \<Rightarrow> callback \<Rightarrow> FunctionTemplate" where
  "SetPrototypeMethod tpl name cb = tpl\<lparr>PrototypeMethods := (PrototypeMethods tpl)(name \<mapsto> cb)\<rparr>"

text \<open>\<open>Init\<close> gives the module's exports: the names set on \<open>target\<close>.\<close>

definition Init :: "string \<rightharpoonup> FunctionTemplate" where
  "Init =
     (let tpl = New_FunctionTemplate cb_New;
          tpl = tpl\<lparr>ClassName := ''VolumeControl''\<rparr>;
          tpl = tpl\<lparr>InternalFieldCount := 1\<rparr>;
          tpl = SetPrototypeMethod tpl ''getVolume'' cb_GetVolume;
          tpl = SetPrototypeMethod tpl ''setVolume'' cb_SetVolume;
          tpl = SetPrototypeMethod tpl ''isMuted'' cb_IsMuted;
          tpl = SetPrototypeMethod tpl ''setMuted'' cb_SetMuted;
          tpl = SetPrototypeMethod tpl ''execTranslatorMacro'' cb_ExecTranslatorMacro
      in [''VolumeControl'' \<mapsto> tpl])"

text \<open>
  The native function behind the call handler; \<open>IsConstructCall\<close> tells whether the
  script called the class with \<open>new\<close>.
\<close>

definition run_constructor ::
  "'w os_stub \<Rightarrow> constructor_callback \<Rightarrow> bool \<Rightarrow> 'w world
     \<Rightarrow> (js_result \<times> VolumeControlWrapper option) \<times> 'w world" where
  "run_constructor os cb IsConstructCall w = (case cb of cb_New \<Rightarrow> New os IsConstructCall w)"

text \<open>The native function behind a registered callback.\<close>

definition run_callback ::
  "'j host \<Rightarrow> 'w os_stub \<Rightarrow> callback \<Rightarrow> 'j list \<Rightarrow> VolumeControlWrapper \<Rightarrow> 'w world
     \<Rightarrow> js_result \<times> 'w world" where
  "run_callback host os cb info obj w =
     (case cb of
        cb_GetVolume \<Rightarrow> GetVolume os info obj w
      | cb_SetVolume \<Rightarrow> SetVolume host os info obj w
      | cb_IsMuted \<Rightarrow> IsMuted os info obj w
      | cb_SetMuted \<Rightarrow> SetMuted host os info obj w
      | cb_ExecTranslatorMacro \<Rightarrow> ExecTranslatorMacro host os info obj w)"

section \<open>A stub operating system and a stub host\<close>

text \<open>
  A test double for the operating system, used for the concrete examples: the three
  construction steps answer with fixed codes, the endpoint is a pair of registers, the
  window list is a table from titles to handles, and a send answers with a fixed return
  value, setting the last error when that value is 0.
\<close>

record stub_state =
  enumerator_hr :: HRESULT
  endpoint_hr :: HRESULT
  activate_hr :: HRESULT
  volume :: float
  mute :: BOOL
  windows :: "(string \<times> ptr) list"
  send_ret :: ptr
  send_err :: DWORD
  last_error :: DWORD

definition stub_os :: "stub_state os_stub" where
  "stub_os =
     \<lparr>CoCreateInstance = (\<lambda>s. ((enumerator_hr s, 0x1000), s)),
      GetDefaultAudioEndpoint = (\<lambda>e flow role s. ((endpoint_hr s, 0x2000), s)),
      Activate = (\<lambda>d s. ((activate_hr s, 0x3000), s)),
      GetMute = (\<lambda>h s. ((0, Some (mute s)), s)),
      SetMute = (\<lambda>h b s. (0, s\<lparr>mute := b\<rparr>)),
      GetMasterVolumeLevelScalar = (\<lambda>h s. ((0, Some (volume s)), s)),
      SetMasterVolumeLevelScalar = (\<lambda>h v s. (0, s\<lparr>volume := v\<rparr>)),
      FindWindowA = (\<lambda>cls title s. (case map_of (windows s) title of None \<Rightarrow> 0 | Some h \<Rightarrow> h, s)),
      SetLastError = (\<lambda>e s. s\<lparr>last_error := e\<rparr>),
      SendMessageTimeoutA = (\<lambda>h msg wp cds flags timeout res s.
         (send_ret s, if send_ret s = 0 then s\<lparr>last_error := send_err s\<rparr> else s)),
      GetLastError = last_error\<rparr>"

definition stub0 :: stub_state where
  "stub0 =
     \<lparr>enumerator_hr = 0, endpoint_hr = 0, activate_hr = 0,
      volume = Finite 0.25, mute = 0,
      windows = [(''Translator CopyData Target'', 0x5000)],
      send_ret = 1, send_err = 0, last_error = 0\<rparr>"

definition world0 :: "stub_state world" where
  "world0 = \<lparr>calls = [], cout = [], os_state = stub0\<rparr>"

definition vc0 :: VolumeControl where
  "vc0 = \<lparr>VolumeControl.device = 0x3000\<rparr>"

definition obj0 :: VolumeControlWrapper where
  "obj0 = \<lparr>VolumeControlWrapper.device = vc0\<rparr>"

text \<open>
  A host for the examples, with four kinds of value: a number, a boolean, a byte string
  and a symbol.  A value converts to its own kind as it is: a number to a \<open>double\<close>, a
  string to its bytes.  A boolean converts to the number 1 or 0 and to the string
  \<open>true\<close> or \<open>false\<close>, and \<open>To_bool\<close> is the script's truthiness.  A symbol
  converts neither to a number nor to a string: the host's conversion throws, the
  \<open>Maybe\<close> is empty and \<open>ToChecked\<close> ends the process.  Parsing a string as a number,
  printing a number and rounding in \<open>double_to_float\<close> are left out; no example uses
  them.
\<close>

datatype js_arg = Num float | Bool bool | Str string | Symbol

definition stub_host :: "js_arg host" where
  "stub_host =
     \<lparr>To_double = (\<lambda>j. case j of Num x \<Rightarrow> Some x
                           | Bool b \<Rightarrow> Some (Finite (if b then 1 else 0))
                           | _ \<Rightarrow> None),
      To_bool = (\<lambda>j. case j of Bool b \<Rightarrow> b
                         | Num x \<Rightarrow> x \<noteq> NaN \<and> x \<noteq> Finite 0
                         | Str s \<Rightarrow> s \<noteq> []
                         | Symbol \<Rightarrow> True),
      To_Utf8String = (\<lambda>j. case j of Str s \<Rightarrow> Some s
                               | Bool b \<Rightarrow> Some (if b then ''true'' else ''false'')
                               | _ \<Rightarrow> None),
      double_to_float = (\<lambda>x. x)\<rparr>"

section \<open>Auxiliary facts\<close>

subsection \<open>Result codes and their rendering\<close>

lemma FAILED_HRESULT_FROM_WIN32: "FAILED (HRESULT_FROM_WIN32 x) \<longleftrightarrow> x \<noteq> ERROR_SUCCESS"
proof (cases "sint x \<le> 0")
  case True
  have "sint x = 0 \<longleftrightarrow> x = 0" by (simp add: signed_eq_0_iff)
  with True show ?thesis
    by (auto simp: HRESULT_FROM_WIN32_def FAILED_def ERROR_SUCCESS_def)
next
  case False
  then have nz: "x \<noteq> 0" by auto
  let ?y = "(x AND 0x0000FFFF) OR push_bit 16 FACILITY_WIN32 OR (0x80000000 :: 32 word)"
  have "bit ?y 31" by (simp add: bit_or_iff bit_simps)
  then have "sint ?y < 0" by (simp add: bit_last_iff [symmetric])
  with False nz show ?thesis
    by (simp add: HRESULT_FROM_WIN32_def FAILED_def ERROR_SUCCESS_def)
qed

lemma HRESULT_FROM_WIN32_low_word: "HRESULT_FROM_WIN32 x AND 0xFFFF = x AND 0xFFFF"
proof (cases "sint x \<le> 0")
  case True
  then show ?thesis by (simp add: HRESULT_FROM_WIN32_def)
next
  case False
  have "((x AND 0xFFFF) OR push_bit 16 FACILITY_WIN32 OR (0x80000000 :: 32 word)) AND 0xFFFF
          = x AND 0xFFFF"
    by (simp add: FACILITY_WIN32_def bit.conj_disj_distrib2)
  with False show ?thesis by (simp add: HRESULT_FROM_WIN32_def)
qed

lemma hexX_ERROR_TIMEOUT: "hexX (unat (HRESULT_FROM_WIN32 1460)) = ''800705B4''"
  by (simp add: HRESULT_FROM_WIN32_def FACILITY_WIN32_def hexX.simps hex_digit_def)

lemma hexX_E_NOTFOUND: "hexX 0x80070490 = ''80070490''"
  by (simp add: hexX.simps hex_digit_def)

text \<open>\<open>hexX\<close> writes the base-16 digits of its argument, most significant first.\<close>

lemma hexX_digits:
  "\<exists>ds. hexX n = map hex_digit ds \<and> ds \<noteq> [] \<and> (\<forall>d\<in>set ds. d < 16)
        \<and> foldl (\<lambda>a d. 16 * a + d) 0 ds = n"
proof (induction n rule: hexX.induct)
  case (1 n)
  show ?case
  proof (cases "n < 16")
    case True
    then have "hexX n = map hex_digit [n] \<and> [n] \<noteq> [] \<and> (\<forall>d\<in>set [n]. d < 16)
        \<and> foldl (\<lambda>a d. 16 * a + d) 0 [n] = n"
      by (simp add: hexX.simps)
    then show ?thesis by blast
  next
    case False
    with 1 obtain ds where ds: "hexX (n div 16) = map hex_digit ds" "ds \<noteq> []"
        "\<forall>d\<in>set ds. d < 16" "foldl (\<lambda>a d. 16 * a + d) 0 ds = n div 16"
      by blast
    from False have "hexX n = hexX (n div 16) @ [hex_digit (n mod 16)]"
      by (subst hexX.simps) simp
    with ds have "hexX n = map hex_digit (ds @ [n mod 16]) \<and> ds @ [n mod 16] \<noteq> []
        \<and> (\<forall>d\<in>set (ds @ [n mod 16]). d < 16)
        \<and> foldl (\<lambda>a d. 16 * a + d) 0 (ds @ [n mod 16]) = n"
      by auto
    then show ?thesis by blast
  qed
qed

lemma hexX_chars: "set (hexX n) \<subseteq> set ''0123456789ABCDEF''"
proof -
  have d: "d < 16 \<Longrightarrow> hex_digit d \<in> set ''0123456789ABCDEF''" for d
    unfolding hex_digit_def by (rule nth_mem) simp
  obtain ds where "hexX n = map hex_digit ds" "\<forall>d\<in>set ds. d < 16"
    using hexX_digits [of n] by blast
  with d show ?thesis by auto
qed

subsection \<open>C strings and messages\<close>

lemma c_str_Nil: "c_str [] = []"
  by (simp add: c_str_def)

lemma c_str_Cons: "c_str (c # s) = (if c = CHR 0x00 then [] else c # c_str s)"
  by (simp add: c_str_def)

lemma c_str_idem: "c_str (c_str s) = c_str s"
  by (simp add: c_str_def)

lemma c_str_no_NUL: "CHR 0x00 \<notin> set s \<Longrightarrow> c_str s = s"
  by (induction s) (auto simp: c_str_def)

lemma c_str_widowName: "c_str widowName = ''Translator CopyData Target''"
  by (simp add: c_str_def widowName_def)

lemma string_format_Failed:
  "string_format ''Failed to execute Translator Macro'' hr
     = ''Failed to execute Translator Macro (0x'' @ hexX (unat hr) @ '')''"
  by (simp add: string_format_def c_str_def)

lemma checkErrors_setting_volume_neq:
  "checkErrors hr ''setting volume'' \<noteq> Inl ''Volume needs to be between 0.0 and 1.0 inclusive''"
  by (simp add: checkErrors_def string_format_def c_str_def)

lemma c_str_ctor_messages:
  "c_str ''Error when trying to get a handle to MMDeviceEnumerator device enumerator''
     = ''Error when trying to get a handle to MMDeviceEnumerator device enumerator''"
  "c_str ''Error when trying to get a handle to the default audio enpoint''
     = ''Error when trying to get a handle to the default audio enpoint''"
  "c_str ''Error when trying to get a handle to the volume endpoint''
     = ''Error when trying to get a handle to the volume endpoint''"
  by (simp_all add: c_str_def)

subsection \<open>Comparisons\<close>

lemma float_range_iff:
  "float_le (Finite 0) v \<and> float_le v (Finite 1)
     \<longleftrightarrow> v \<noteq> NaN \<and> \<not> (float_less v (Finite 0) \<or> float_less (Finite 1) v)"
  by (cases v) (auto simp: float_le_def)

subsection \<open>The constructor along the answers of the operating system\<close>

lemma VolumeControl_ctor_unfold:
  assumes e: "CoCreateInstance os (os_state w) = ((hr1, enumerator), s1)"
    and d: "GetDefaultAudioEndpoint os enumerator eRender eConsole s1 = ((hr2, dflt), s2)"
    and a: "Activate os dflt s2 = ((hr3, ep), s3)"
  shows "VolumeControl_ctor os w =
    (if FAILED hr1 then
       (Inl (''Error when trying to get a handle to MMDeviceEnumerator device enumerator (0x''
              @ hexX (unat hr1) @ '')''),
        w\<lparr>calls := calls w @ [Call_CoCreateInstance], os_state := s1\<rparr>)
     else if FAILED hr2 then
       (Inl (''Error when trying to get a handle to the default audio enpoint (0x''
              @ hexX (unat hr2) @ '')''),
        w\<lparr>calls := calls w @
             [Call_CoCreateInstance, Call_GetDefaultAudioEndpoint enumerator eRender eConsole],
           os_state := s2\<rparr>)
     else if FAILED hr3 then
       (Inl (''Error when trying to get a handle to the volume endpoint (0x''
              @ hexX (unat hr3) @ '')''),
        w\<lparr>calls := calls w @
             [Call_CoCreateInstance, Call_GetDefaultAudioEndpoint enumerator eRender eConsole,
              Call_Activate dflt],
           os_state := s3\<rparr>)
     else
       (Inr \<lparr>VolumeControl.device = ep\<rparr>,
        w\<lparr>calls := calls w @
             [Call_CoCreateInstance, Call_GetDefaultAudioEndpoint enumerator eRender eConsole,
              Call_Activate dflt],
           os_state := s3\<rparr>))"
  using assms
  by (simp add: VolumeControl_ctor_def invoke_def checkErrors_def string_format_def
      c_str_ctor_messages)

subsection \<open>The macro trigger along the answers of the operating system\<close>

lemma ExecTranslatorMacro_not_found:
  assumes arity: "length info = 1"
    and found: "FindWindowA os None ''Translator CopyData Target'' (os_state w) = (0, s1)"
  shows "ExecTranslatorMacro host os info obj w =
           (Throws ''Could not find running Translator instance to send message to'',
            w\<lparr>calls := calls w @ [Call_FindWindowA None ''Translator CopyData Target''],
               os_state := s1\<rparr>)"
  using assms
  by (simp add: ExecTranslatorMacro_def invoke_def c_str_widowName)

lemma ExecTranslatorMacro_found:
  assumes arity: "length info = 1"
    and found: "FindWindowA os None ''Translator CopyData Target'' (os_state w) = (hwnd, s1)"
               "hwnd \<noteq> 0"
    and conv: "To_Utf8String host (info ! 0) = Some name"
    and send: "SendMessageTimeoutA os hwnd WM_COPYDATA 0
                 \<lparr>dwData = 24, cbData = of_nat (length (''Macro: '' @ c_str name)),
                  lpData = ''Macro: '' @ c_str name\<rparr>
                 SMTO_ABORTIFHUNG 5000 0 (SetLastError os ERROR_SUCCESS s1) = (ret, s2)"
  shows "ExecTranslatorMacro host os info obj w =
           (if ret = 0 \<and> GetLastError os s2 \<noteq> ERROR_SUCCESS
            then Throws (''Failed to execute Translator Macro (0x''
                          @ hexX (unat (HRESULT_FROM_WIN32 (GetLastError os s2))) @ '')'')
            else Returns Undefined,
            w\<lparr>calls := calls w @
                 [Call_FindWindowA None ''Translator CopyData Target'',
                  Call_SetLastError ERROR_SUCCESS,
                  Call_SendMessageTimeoutA hwnd WM_COPYDATA 0
                    \<lparr>dwData = 24, cbData = of_nat (length (''Macro: '' @ c_str name)),
                     lpData = ''Macro: '' @ c_str name\<rparr>
                    SMTO_ABORTIFHUNG 5000 0,
                  Call_GetLastError],
               os_state := s2\<rparr>)"
  using assms
  by (simp add: ExecTranslatorMacro_def invoke_def c_str_widowName c_str_Cons c_str_idem
      strlen_def CopyDataID_def FAILED_HRESULT_FROM_WIN32 string_format_Failed Let_def)

subsection \<open>What each native method hands back\<close>

lemma Init_template:
  "Init = [''VolumeControl'' \<mapsto>
     \<lparr>CallHandler = cb_New, ClassName = ''VolumeControl'', InternalFieldCount = 1,
      PrototypeMethods =
        [''getVolume'' \<mapsto> cb_GetVolume, ''setVolume'' \<mapsto> cb_SetVolume,
         ''isMuted'' \<mapsto> cb_IsMuted, ''setMuted'' \<mapsto> cb_SetMuted,
         ''execTranslatorMacro'' \<mapsto> cb_ExecTranslatorMacro]\<rparr>]"
  by (simp add: Init_def New_FunctionTemplate_def SetPrototypeMethod_def Let_def)

text \<open>
  The outcome of each native function as a function of the answers of the operating
  system and of the host's conversions.
\<close>

lemma c_str_method_messages:
  "c_str ''getting volume'' = ''getting volume''"
  "c_str ''setting volume'' = ''setting volume''"
  "c_str ''getting muted state'' = ''getting muted state''"
  "c_str ''setting mute'' = ''setting mute''"
  by (simp_all add: c_str_def)

lemma GetVolume_outcome:
  "fst (GetVolume os info obj w) =
     (case GetMasterVolumeLevelScalar os (VolumeControl.device (VolumeControlWrapper.device obj))
             (os_state w) of
        ((hr, out), s) \<Rightarrow>
          if FAILED hr then Throws (''getting volume (0x'' @ hexX (unat hr) @ '')'')
          else Returns (Number_double (case out of None \<Rightarrow> Finite 0 | Some v \<Rightarrow> v)))"
  by (simp add: GetVolume_def getVolume_def invoke_def checkErrors_def string_format_def
      c_str_method_messages Let_def split: prod.splits)

lemma IsMuted_outcome:
  "fst (IsMuted os info obj w) =
     (case GetMute os (VolumeControl.device (VolumeControlWrapper.device obj)) (os_state w) of
        ((hr, out), s) \<Rightarrow>
          if FAILED hr then Throws (''getting muted state (0x'' @ hexX (unat hr) @ '')'')
          else Returns (Number_int32 (case out of None \<Rightarrow> 0 | Some m \<Rightarrow> m)))"
  by (simp add: IsMuted_def isMuted_def invoke_def checkErrors_def string_format_def
      c_str_method_messages Let_def split: prod.splits)

lemma SetMuted_outcome:
  "fst (SetMuted host os info obj w) =
     (if length info \<noteq> 1 then Throws ''Exactly one boolean parameter is required.''
      else
        (case SetMute os (VolumeControl.device (VolumeControlWrapper.device obj))
                (BOOL_of_bool (To_bool host (info ! 0))) (os_state w) of
           (hr, s) \<Rightarrow>
             if FAILED hr then Throws (''setting mute (0x'' @ hexX (unat hr) @ '')'')
             else Returns Undefined))"
  by (simp add: SetMuted_def setMuted_def invoke_def checkErrors_def string_format_def
      c_str_method_messages Let_def split: prod.splits)

lemma SetVolume_outcome:
  "fst (SetVolume host os info obj w) =
     (if length info \<noteq> 1 then Throws ''Exactly one number parameter is required.''
      else
        (case To_double host (info ! 0) of
           None \<Rightarrow> Aborts
         | Some x \<Rightarrow>
             if float_less (double_to_float host x) (Finite 0)
                \<or> float_less (Finite 1) (double_to_float host x)
             then Throws ''Volume needs to be between 0.0 and 1.0 inclusive''
             else
               (case SetMasterVolumeLevelScalar os
                       (VolumeControl.device (VolumeControlWrapper.device obj))
                       (double_to_float host x) (os_state w) of
                  (hr, s) \<Rightarrow>
                    if FAILED hr then Throws (''setting volume (0x'' @ hexX (unat hr) @ '')'')
                    else Returns Undefined)))"
  by (simp add: SetVolume_def setVolume_def invoke_def checkErrors_def string_format_def
      c_str_method_messages Let_def split: prod.splits option.splits)

lemma ExecTranslatorMacro_outcome:
  "fst (ExecTranslatorMacro host os info obj w) =
     (if length info \<noteq> 1 then Throws ''Exactly one string parameter is required.''
      else
        (case FindWindowA os None ''Translator CopyData Target'' (os_state w) of
           (hwnd, s1) \<Rightarrow>
             if hwnd = 0
             then Throws ''Could not find running Translator instance to send message to''
             else
               (case To_Utf8String host (info ! 0) of
                  None \<Rightarrow> Aborts
                | Some name \<Rightarrow>
                    (case SendMessageTimeoutA os hwnd WM_COPYDATA 0
                            \<lparr>dwData = 24,
                             cbData = of_nat (length (''Macro: '' @ c_str name)),
                             lpData = ''Macro: '' @ c_str name\<rparr>
                            SMTO_ABORTIFHUNG 5000 0 (SetLastError os ERROR_SUCCESS s1) of
                       (ret, s2) \<Rightarrow>
                         if ret = 0 \<and> GetLastError os s2 \<noteq> ERROR_SUCCESS
                         then Throws (''Failed to execute Translator Macro (0x''
                                 @ hexX (unat (HRESULT_FROM_WIN32 (GetLastError os s2))) @ '')'')
                         else Returns Undefined))))"
proof (cases "length info = 1")
  case False
  then show ?thesis by (simp add: ExecTranslatorMacro_def)
next
  case arity: True
  obtain hwnd s1 where look:
    "FindWindowA os None ''Translator CopyData Target'' (os_state w) = (hwnd, s1)"
    by (metis surj_pair)
  show ?thesis
  proof (cases "hwnd = 0")
    case True
    with ExecTranslatorMacro_not_found [OF arity, of os w s1 host obj] look arity
    show ?thesis by simp
  next
    case nz: False
    show ?thesis
    proof (cases "To_Utf8String host (info ! 0)")
      case None
      with arity look nz show ?thesis
        by (simp add: ExecTranslatorMacro_def invoke_def c_str_widowName)
    next
      case (Some name)
      obtain ret s2 where send:
        "SendMessageTimeoutA os hwnd WM_COPYDATA 0
           \<lparr>dwData = 24, cbData = of_nat (length (''Macro: '' @ c_str name)),
            lpData = ''Macro: '' @ c_str name\<rparr>
           SMTO_ABORTIFHUNG 5000 0 (SetLastError os ERROR_SUCCESS s1) = (ret, s2)"
        by (metis surj_pair)
      from ExecTranslatorMacro_found [OF arity look nz Some send, of obj] arity look nz Some send
      show ?thesis by simp
    qed
  qed
qed

lemma New_outcome:
  "New os False w = ((Throws ''The constructor cannot be called as a function.'', None), w)"
  "fst (New os True w) =
     (case CoCreateInstance os (os_state w) of
        ((hr1, enumerator), s1) \<Rightarrow>
          if FAILED hr1
          then (Throws (''Error when trying to get a handle to MMDeviceEnumerator device enumerator (0x''
                         @ hexX (unat hr1) @ '')''), None)
          else
            (case GetDefaultAudioEndpoint os enumerator eRender eConsole s1 of
               ((hr2, dflt), s2) \<Rightarrow>
                 if FAILED hr2
                 then (Throws (''Error when trying to get a handle to the default audio enpoint (0x''
                                @ hexX (unat hr2) @ '')''), None)
                 else
                   (case Activate os dflt s2 of
                      ((hr3, ep), s3) \<Rightarrow>
                        if FAILED hr3
                        then (Throws (''Error when trying to get a handle to the volume endpoint (0x''
                                       @ hexX (unat hr3) @ '')''), None)
                        else (Returns This,
                              Some \<lparr>VolumeControlWrapper.device =
                                      \<lparr>VolumeControl.device = ep\<rparr>\<rparr>))))"
proof -
  show "New os False w = ((Throws ''The constructor cannot be called as a function.'', None), w)"
    by (simp add: New_def)
  let ?w0 = "w\<lparr>cout := cout w @ [''Constructing new object'']\<rparr>"
  obtain hr1 enumerator s1 where e: "CoCreateInstance os (os_state w) = ((hr1, enumerator), s1)"
    by (metis surj_pair)
  obtain hr2 dflt s2 where
    d: "GetDefaultAudioEndpoint os enumerator eRender eConsole s1 = ((hr2, dflt), s2)"
    by (metis surj_pair)
  obtain hr3 ep s3 where a: "Activate os dflt s2 = ((hr3, ep), s3)"
    by (metis surj_pair)
  have e0: "CoCreateInstance os (os_state ?w0) = ((hr1, enumerator), s1)"
    using e by simp
  show "fst (New os True w) =
     (case CoCreateInstance os (os_state w) of
        ((hr1, enumerator), s1) \<Rightarrow>
          if FAILED hr1
          then (Throws (''Error when trying to get a handle to MMDeviceEnumerator device enumerator (0x''
                         @ hexX (unat hr1) @ '')''), None)
          else
            (case GetDefaultAudioEndpoint os enumerator eRender eConsole s1 of
               ((hr2, dflt), s2) \<Rightarrow>
                 if FAILED hr2
                 then (Throws (''Error when trying to get a handle to the default audio enpoint (0x''
                                @ hexX (unat hr2) @ '')''), None)
                 else
                   (case Activate os dflt s2 of
                      ((hr3, ep), s3) \<Rightarrow>
                        if FAILED hr3
                        then (Throws (''Error when trying to get a handle to the volume endpoint (0x''
                                       @ hexX (unat hr3) @ '')''), None)
                        else (Returns This,
                              Some \<lparr>VolumeControlWrapper.device =
                                      \<lparr>VolumeControl.device = ep\<rparr>\<rparr>))))"
    unfolding New_def Let_def VolumeControl_ctor_unfold [OF e0 d a]
    using e d a by simp
qed

section \<open>The volume accessor\<close>

text \<open>
  C9.  The constructor throws exactly when one of its three steps answers with a failure
  code: creating the device enumerator, asking it for the default rendering endpoint
  (\<open>eRender\<close>, \<open>eConsole\<close>), activating the volume interface on that endpoint.
  A failing step ends the construction at once: the call log then ends with that step,
  no later step was called, and the message names the step and carries its code.  When
  no step fails the object holds the activated interface.  Through \<open>New\<close> a failed
  construction throws to the script and yields no wrapper object.
\<close>

theorem VolumeControl_ctor_failure:
  assumes e: "CoCreateInstance os (os_state w) = ((hr1, enumerator), s1)"
    and d: "GetDefaultAudioEndpoint os enumerator eRender eConsole s1 = ((hr2, dflt), s2)"
    and a: "Activate os dflt s2 = ((hr3, ep), s3)"
  shows "((\<exists>msg. fst (VolumeControl_ctor os w) = Inl msg)
            \<longleftrightarrow> FAILED hr1 \<or> FAILED hr2 \<or> FAILED hr3)
       \<and> (FAILED hr1 \<longrightarrow>
            VolumeControl_ctor os w =
              (Inl (''Error when trying to get a handle to MMDeviceEnumerator device enumerator (0x''
                     @ hexX (unat hr1) @ '')''),
               w\<lparr>calls := calls w @ [Call_CoCreateInstance], os_state := s1\<rparr>))
       \<and> (\<not> FAILED hr1 \<and> FAILED hr2 \<longrightarrow>
            VolumeControl_ctor os w =
              (Inl (''Error when trying to get a handle to the default audio enpoint (0x''
                     @ hexX (unat hr2) @ '')''),
               w\<lparr>calls := calls w @
                    [Call_CoCreateInstance,
                     Call_GetDefaultAudioEndpoint enumerator eRender eConsole],
                  os_state := s2\<rparr>))
       \<and> (\<not> FAILED hr1 \<and> \<not> FAILED hr2 \<and> FAILED hr3 \<longrightarrow>
            VolumeControl_ctor os w =
              (Inl (''Error when trying to get a handle to the volume endpoint (0x''
                     @ hexX (unat hr3) @ '')''),
               w\<lparr>calls := calls w @
                    [Call_CoCreateInstance,
                     Call_GetDefaultAudioEndpoint enumerator eRender eConsole,
                     Call_Activate dflt],
                  os_state := s3\<rparr>))
       \<and> (\<not> FAILED hr1 \<and> \<not> FAILED hr2 \<and> \<not> FAILED hr3 \<longrightarrow>
            fst (VolumeControl_ctor os w) = Inr \<lparr>VolumeControl.device = ep\<rparr>)
       \<and> (FAILED hr1 \<or> FAILED hr2 \<or> FAILED hr3 \<longrightarrow>
            (\<exists>msg. fst (New os True w) = (Throws msg, None)))"
proof -
  let ?w0 = "w\<lparr>cout := cout w @ [''Constructing new object'']\<rparr>"
  have e0: "CoCreateInstance os (os_state ?w0) = ((hr1, enumerator), s1)"
    using e by simp
  note u = VolumeControl_ctor_unfold [OF e d a]
  note u0 = VolumeControl_ctor_unfold [OF e0 d a]
  have new: "FAILED hr1 \<or> FAILED hr2 \<or> FAILED hr3 \<Longrightarrow> \<exists>msg. fst (New os True w) = (Throws msg, None)"
    unfolding New_def Let_def u0 by auto
  show ?thesis
    using new unfolding u by auto
qed

theorem VolumeControl_ctor_failure_witness:
  "VolumeControl_ctor stub_os (world0\<lparr>os_state := stub0\<lparr>endpoint_hr := 0x80070490\<rparr>\<rparr>)
     = (Inl ''Error when trying to get a handle to the default audio enpoint (0x80070490)'',
        world0\<lparr>calls := [Call_CoCreateInstance, Call_GetDefaultAudioEndpoint 0x1000 eRender eConsole],
               os_state := stub0\<lparr>endpoint_hr := 0x80070490\<rparr>\<rparr>)
   \<and> fst (VolumeControl_ctor stub_os world0) = Inr \<lparr>VolumeControl.device = 0x3000\<rparr>"
proof -
  let ?s = "stub0\<lparr>endpoint_hr := 0x80070490\<rparr>"
  have e: "CoCreateInstance stub_os (os_state (world0\<lparr>os_state := ?s\<rparr>)) = ((0, 0x1000), ?s)"
    by (simp add: stub_os_def stub0_def)
  have d: "GetDefaultAudioEndpoint stub_os 0x1000 eRender eConsole ?s = ((0x80070490, 0x2000), ?s)"
    by (simp add: stub_os_def stub0_def)
  have a: "Activate stub_os 0x2000 ?s = ((0, 0x3000), ?s)"
    by (simp add: stub_os_def stub0_def)
  have e': "CoCreateInstance stub_os (os_state world0) = ((0, 0x1000), stub0)"
    by (simp add: stub_os_def stub0_def world0_def)
  have d': "GetDefaultAudioEndpoint stub_os 0x1000 eRender eConsole stub0 = ((0, 0x2000), stub0)"
    by (simp add: stub_os_def stub0_def)
  have a': "Activate stub_os 0x2000 stub0 = ((0, 0x3000), stub0)"
    by (simp add: stub_os_def stub0_def)
  have f: "FAILED 0x80070490" and ok: "\<not> FAILED 0"
    by (simp_all add: FAILED_def)
  show ?thesis
    using VolumeControl_ctor_failure [OF e d a] VolumeControl_ctor_failure [OF e' d' a'] f ok
    by (simp add: hexX_E_NOTFOUND world0_def)
qed

text \<open>
  C1.  \<open>setVolume\<close> throws its range message if and only if the value is below 0.0 or
  above 1.0 (for NaN neither comparison holds, so NaN is not rejected); when it throws,
  the world is the one it started in: no operating-system call was made and nothing
  changed.  For every value from 0.0 to 1.0, both ends included, exactly one call is
  made, \<open>SetMasterVolumeLevelScalar\<close> with that value, and the outcome is the answer of
  that call passed through \<open>checkErrors\<close>.
\<close>

theorem setVolume_range_check:
  "(fst (setVolume os this v w) = Inl ''Volume needs to be between 0.0 and 1.0 inclusive''
      \<longleftrightarrow> float_less v (Finite 0) \<or> float_less (Finite 1) v)
   \<and> (float_less v (Finite 0) \<or> float_less (Finite 1) v \<longrightarrow> snd (setVolume os this v w) = w)
   \<and> (float_le (Finite 0) v \<and> float_le v (Finite 1) \<longrightarrow>
        setVolume os this v w =
          (checkErrors
             (fst (SetMasterVolumeLevelScalar os (VolumeControl.device this) v (os_state w)))
             ''setting volume'',
           w\<lparr>calls := calls w @ [Call_SetMasterVolumeLevelScalar (VolumeControl.device this) v],
              os_state :=
                snd (SetMasterVolumeLevelScalar os (VolumeControl.device this) v (os_state w))\<rparr>))"
proof (intro conjI impI)
  show "fst (setVolume os this v w) = Inl ''Volume needs to be between 0.0 and 1.0 inclusive''
      \<longleftrightarrow> float_less v (Finite 0) \<or> float_less (Finite 1) v"
    by (auto simp: setVolume_def invoke_def checkErrors_setting_volume_neq split: prod.splits)
next
  assume "float_less v (Finite 0) \<or> float_less (Finite 1) v"
  then show "snd (setVolume os this v w) = w"
    by (auto simp: setVolume_def)
next
  assume "float_le (Finite 0) v \<and> float_le v (Finite 1)"
  then have "\<not> (float_less v (Finite 0) \<or> float_less (Finite 1) v)"
    using float_range_iff [of v] by simp
  then show "setVolume os this v w =
          (checkErrors
             (fst (SetMasterVolumeLevelScalar os (VolumeControl.device this) v (os_state w)))
             ''setting volume'',
           w\<lparr>calls := calls w @ [Call_SetMasterVolumeLevelScalar (VolumeControl.device this) v],
              os_state :=
                snd (SetMasterVolumeLevelScalar os (VolumeControl.device this) v (os_state w))\<rparr>)"
    by (simp add: setVolume_def invoke_def split: prod.splits)
qed

theorem setVolume_range_check_witness:
  "float_less (Finite (-0.1)) (Finite 0)
   \<and> setVolume stub_os vc0 (Finite (-0.1)) world0
       = (Inl ''Volume needs to be between 0.0 and 1.0 inclusive'', world0)
   \<and> float_less (Finite 1) (Finite 1.1)
   \<and> setVolume stub_os vc0 (Finite 1.1) world0
       = (Inl ''Volume needs to be between 0.0 and 1.0 inclusive'', world0)
   \<and> float_le (Finite 0) (Finite 0) \<and> float_le (Finite 0) (Finite 1)
   \<and> setVolume stub_os vc0 (Finite 0) world0
       = (Inr (), world0\<lparr>calls := [Call_SetMasterVolumeLevelScalar 0x3000 (Finite 0)],
                         os_state := stub0\<lparr>volume := Finite 0\<rparr>\<rparr>)
   \<and> float_le (Finite 1) (Finite 1)
   \<and> setVolume stub_os vc0 (Finite 1) world0
       = (Inr (), world0\<lparr>calls := [Call_SetMasterVolumeLevelScalar 0x3000 (Finite 1)],
                         os_state := stub0\<lparr>volume := Finite 1\<rparr>\<rparr>)"
  using setVolume_range_check [of stub_os vc0 "Finite (-0.1)" world0]
        setVolume_range_check [of stub_os vc0 "Finite 1.1" world0]
        setVolume_range_check [of stub_os vc0 "Finite 0" world0]
        setVolume_range_check [of stub_os vc0 "Finite 1" world0]
  by (simp add: float_le_def prod_eq_iff stub_os_def vc0_def world0_def checkErrors_def FAILED_def)

text \<open>
  C3.  For every value \<open>v\<close> from 0.0 to 1.0: when the endpoint accepts
  \<open>SetMasterVolumeLevelScalar v\<close> and, asked next, answers with the value it was
  given, without failure, then \<open>setVolume v\<close> succeeds and \<open>getVolume\<close> right after it
  returns \<open>v\<close> itself.  The accessor changes the value neither on the way in nor on the
  way out; equality is exact at this level, so it holds within any tolerance.
\<close>

theorem setVolume_getVolume:
  assumes range: "float_le (Finite 0) v" "float_le v (Finite 1)"
    and set_ok: "SetMasterVolumeLevelScalar os (VolumeControl.device this) v (os_state w) = (hr, s1)"
                "\<not> FAILED hr"
    and get_ok: "GetMasterVolumeLevelScalar os (VolumeControl.device this) s1 = ((hr', Some v), s2)"
                "\<not> FAILED hr'"
  shows "fst (setVolume os this v w) = Inr ()
       \<and> fst (getVolume os this (snd (setVolume os this v w))) = Inr v"
proof -
  from range have "\<not> (float_less v (Finite 0) \<or> float_less (Finite 1) v)"
    using float_range_iff [of v] by simp
  with set_ok have "setVolume os this v w
      = (Inr (), w\<lparr>calls := calls w @ [Call_SetMasterVolumeLevelScalar (VolumeControl.device this) v],
                   os_state := s1\<rparr>)"
    by (simp add: setVolume_def invoke_def checkErrors_def)
  with get_ok show ?thesis
    by (simp add: getVolume_def invoke_def checkErrors_def)
qed

theorem setVolume_getVolume_witness:
  "float_le (Finite 0) (Finite 0.37) \<and> float_le (Finite 0.37) (Finite 1)
   \<and> fst (setVolume stub_os vc0 (Finite 0.37) world0) = Inr ()
   \<and> fst (getVolume stub_os vc0 (snd (setVolume stub_os vc0 (Finite 0.37) world0))) = Inr (Finite 0.37)"
proof -
  have r1: "float_le (Finite 0) (Finite 0.37)" and r2: "float_le (Finite 0.37) (Finite 1)"
    by (simp_all add: float_le_def)
  have s: "SetMasterVolumeLevelScalar stub_os (VolumeControl.device vc0) (Finite 0.37) (os_state world0)
             = (0, stub0\<lparr>volume := Finite 0.37\<rparr>)"
    by (simp add: stub_os_def world0_def)
  have g: "GetMasterVolumeLevelScalar stub_os (VolumeControl.device vc0) (stub0\<lparr>volume := Finite 0.37\<rparr>)
             = ((0, Some (Finite 0.37)), stub0\<lparr>volume := Finite 0.37\<rparr>)"
    by (simp add: stub_os_def)
  have ok: "\<not> FAILED 0" by (simp add: FAILED_def)
  show ?thesis
    using setVolume_getVolume [OF r1 r2 s ok g ok] r1 r2 by simp
qed

text \<open>
  C4.  For every boolean \<open>b\<close>, passed as a \<open>BOOL\<close> (1 for true, 0 for false): when the
  endpoint accepts \<open>SetMute\<close> and, asked next, answers with the flag it was given,
  without failure, then \<open>setMuted b\<close> succeeds and \<open>isMuted\<close> right after it returns
  that same flag, which is non-zero exactly when \<open>b\<close> is true.
\<close>

theorem setMuted_isMuted:
  assumes set_ok: "SetMute os (VolumeControl.device this) (BOOL_of_bool b) (os_state w) = (hr, s1)"
                  "\<not> FAILED hr"
    and get_ok: "GetMute os (VolumeControl.device this) s1 = ((hr', Some (BOOL_of_bool b)), s2)"
                "\<not> FAILED hr'"
  shows "fst (setMuted os this (BOOL_of_bool b) w) = Inr ()
       \<and> fst (isMuted os this (snd (setMuted os this (BOOL_of_bool b) w))) = Inr (BOOL_of_bool b)
       \<and> (BOOL_of_bool b \<noteq> 0 \<longleftrightarrow> b)"
  using assms
  by (simp add: setMuted_def isMuted_def invoke_def checkErrors_def BOOL_of_bool_def)

theorem setMuted_isMuted_witness:
  "fst (isMuted stub_os vc0 (snd (setMuted stub_os vc0 (BOOL_of_bool True) world0))) = Inr 1
   \<and> fst (isMuted stub_os vc0
           (snd (setMuted stub_os vc0 (BOOL_of_bool False)
                  (world0\<lparr>os_state := stub0\<lparr>mute := 1\<rparr>\<rparr>)))) = Inr 0"
proof -
  have ok: "\<not> FAILED 0" by (simp add: FAILED_def)
  have s1: "SetMute stub_os (VolumeControl.device vc0) (BOOL_of_bool True) (os_state world0)
              = (0, stub0\<lparr>mute := 1\<rparr>)"
    by (simp add: stub_os_def world0_def BOOL_of_bool_def)
  have g1: "GetMute stub_os (VolumeControl.device vc0) (stub0\<lparr>mute := 1\<rparr>)
              = ((0, Some (BOOL_of_bool True)), stub0\<lparr>mute := 1\<rparr>)"
    by (simp add: stub_os_def BOOL_of_bool_def)
  have s0: "SetMute stub_os (VolumeControl.device vc0) (BOOL_of_bool False)
              (os_state (world0\<lparr>os_state := stub0\<lparr>mute := 1\<rparr>\<rparr>))
              = (0, stub0\<lparr>mute := 0\<rparr>)"
    by (simp add: stub_os_def BOOL_of_bool_def)
  have g0: "GetMute stub_os (VolumeControl.device vc0) (stub0\<lparr>mute := 0\<rparr>)
              = ((0, Some (BOOL_of_bool False)), stub0\<lparr>mute := 0\<rparr>)"
    by (simp add: stub_os_def BOOL_of_bool_def)
  show ?thesis
    using setMuted_isMuted [OF s1 ok g1 ok] setMuted_isMuted [OF s0 ok g0 ok]
    by (simp add: BOOL_of_bool_def)
qed

text \<open>
  C5.  \<open>setMuted\<close>, for either flag and whether or not the call succeeds, makes one
  operating-system call, \<open>SetMute\<close>, and no call that sets the volume.  So when the
  endpoint's \<open>SetMute\<close> leaves its answer to \<open>GetMasterVolumeLevelScalar\<close> as it
  was, \<open>getVolume\<close> after \<open>setMuted\<close> returns what it returned before.
\<close>

theorem setMuted_keeps_volume:
  assumes mute: "SetMute os (VolumeControl.device this) muted (os_state w) = (hr, s1)"
    and frame: "fst (GetMasterVolumeLevelScalar os (VolumeControl.device this) s1)
                  = fst (GetMasterVolumeLevelScalar os (VolumeControl.device this) (os_state w))"
  shows "calls (snd (setMuted os this muted w))
           = calls w @ [Call_SetMute (VolumeControl.device this) muted]
       \<and> os_state (snd (setMuted os this muted w)) = s1
       \<and> fst (getVolume os this (snd (setMuted os this muted w))) = fst (getVolume os this w)"
proof -
  have after: "snd (setMuted os this muted w)
      = w\<lparr>calls := calls w @ [Call_SetMute (VolumeControl.device this) muted], os_state := s1\<rparr>"
    using mute by (simp add: setMuted_def invoke_def)
  obtain a b x where g1: "GetMasterVolumeLevelScalar os (VolumeControl.device this) s1 = ((a, b), x)"
    by (metis surj_pair)
  obtain y where g0:
    "GetMasterVolumeLevelScalar os (VolumeControl.device this) (os_state w) = ((a, b), y)"
    using frame g1 by (metis fst_conv surj_pair)
  have "fst (getVolume os this (snd (setMuted os this muted w))) = fst (getVolume os this w)"
    unfolding after using g1 g0
    by (simp add: getVolume_def invoke_def split: sum.splits)
  with after show ?thesis by simp
qed

theorem setMuted_keeps_volume_witness:
  "fst (getVolume stub_os vc0 (world0\<lparr>os_state := stub0\<lparr>volume := Finite 0.37\<rparr>\<rparr>))
     = Inr (Finite 0.37)
   \<and> fst (getVolume stub_os vc0
           (snd (setMuted stub_os vc0 1 (world0\<lparr>os_state := stub0\<lparr>volume := Finite 0.37\<rparr>\<rparr>))))
       = Inr (Finite 0.37)
   \<and> fst (getVolume stub_os vc0
           (snd (setMuted stub_os vc0 0 (world0\<lparr>os_state := stub0\<lparr>volume := Finite 0.37\<rparr>\<rparr>))))
       = Inr (Finite 0.37)"
proof -
  let ?w = "world0\<lparr>os_state := stub0\<lparr>volume := Finite 0.37\<rparr>\<rparr>"
  have m: "SetMute stub_os (VolumeControl.device vc0) b (os_state ?w)
             = (0, stub0\<lparr>volume := Finite 0.37, mute := b\<rparr>)" for b
    by (simp add: stub_os_def)
  have f: "fst (GetMasterVolumeLevelScalar stub_os (VolumeControl.device vc0)
                  (stub0\<lparr>volume := Finite 0.37, mute := b\<rparr>))
             = fst (GetMasterVolumeLevelScalar stub_os (VolumeControl.device vc0) (os_state ?w))" for b
    by (simp add: stub_os_def)
  have before: "fst (getVolume stub_os vc0 ?w) = Inr (Finite 0.37)"
    by (simp add: getVolume_def invoke_def checkErrors_def FAILED_def stub_os_def)
  show ?thesis
    using setMuted_keeps_volume [OF m f, of 1] setMuted_keeps_volume [OF m f, of 0] before
    by simp
qed

section \<open>The macro trigger\<close>

text \<open>
  C6.  With one argument, whatever it is, the first operating-system call of
  \<open>ExecTranslatorMacro\<close> is \<open>FindWindowA\<close> with no class name and the fixed title
  \<open>Translator CopyData Target\<close>.  The method throws its not-found message if and only
  if that call returns the null handle; in that case the lookup is the only call made
  (no send, no second lookup) and the method is finished.
\<close>

theorem ExecTranslatorMacro_window_lookup:
  assumes arity: "length info = 1"
    and look: "FindWindowA os None ''Translator CopyData Target'' (os_state w) = (hwnd, s1)"
  shows "(fst (ExecTranslatorMacro host os info obj w)
            = Throws ''Could not find running Translator instance to send message to''
          \<longleftrightarrow> hwnd = 0)
       \<and> (hwnd = 0 \<longrightarrow>
            snd (ExecTranslatorMacro host os info obj w)
              = w\<lparr>calls := calls w @ [Call_FindWindowA None ''Translator CopyData Target''],
                  os_state := s1\<rparr>)
       \<and> (\<exists>rest. calls (snd (ExecTranslatorMacro host os info obj w))
              = calls w @ Call_FindWindowA None ''Translator CopyData Target'' # rest)"
proof (cases "hwnd = 0")
  case True
  with ExecTranslatorMacro_not_found [OF arity, of os w s1 host obj] look
  show ?thesis by simp
next
  case False
  show ?thesis
  proof (cases "To_Utf8String host (info ! 0)")
    case None
    with arity look False show ?thesis
      by (simp add: ExecTranslatorMacro_def invoke_def c_str_widowName)
  next
    case (Some name)
    obtain ret s2 where send:
      "SendMessageTimeoutA os hwnd WM_COPYDATA 0
         \<lparr>dwData = 24, cbData = of_nat (length (''Macro: '' @ c_str name)),
          lpData = ''Macro: '' @ c_str name\<rparr>
         SMTO_ABORTIFHUNG 5000 0 (SetLastError os ERROR_SUCCESS s1) = (ret, s2)"
      by (cases "SendMessageTimeoutA os hwnd WM_COPYDATA 0
         \<lparr>dwData = 24, cbData = of_nat (length (''Macro: '' @ c_str name)),
          lpData = ''Macro: '' @ c_str name\<rparr>
         SMTO_ABORTIFHUNG 5000 0 (SetLastError os ERROR_SUCCESS s1)") blast
    from ExecTranslatorMacro_found [OF arity look False Some send, of obj] False
    show ?thesis by simp
  qed
qed

theorem ExecTranslatorMacro_window_lookup_witness:
  "ExecTranslatorMacro stub_host stub_os [Str ''Foo''] obj0
       (world0\<lparr>os_state := stub0\<lparr>windows := [(''Some other window'', 0x77)]\<rparr>\<rparr>)
     = (Throws ''Could not find running Translator instance to send message to'',
        world0\<lparr>calls := [Call_FindWindowA None ''Translator CopyData Target''],
               os_state := stub0\<lparr>windows := [(''Some other window'', 0x77)]\<rparr>\<rparr>)
   \<and> fst (ExecTranslatorMacro stub_host stub_os [Str ''Foo''] obj0 world0)
       \<noteq> Throws ''Could not find running Translator instance to send message to''"
proof -
  have arity: "length [Str ''Foo''] = 1" by simp
  have absent: "FindWindowA stub_os None ''Translator CopyData Target''
                  (os_state (world0\<lparr>os_state := stub0\<lparr>windows := [(''Some other window'', 0x77)]\<rparr>\<rparr>))
                = (0, stub0\<lparr>windows := [(''Some other window'', 0x77)]\<rparr>)"
    by (simp add: stub_os_def)
  have present: "FindWindowA stub_os None ''Translator CopyData Target'' (os_state world0)
                = (0x5000, stub0)"
    by (simp add: stub_os_def stub0_def world0_def)
  show ?thesis
    using ExecTranslatorMacro_window_lookup [OF arity absent, of stub_host obj0]
          ExecTranslatorMacro_window_lookup [OF arity present, of stub_host obj0]
    by (simp add: prod_eq_iff world0_def)
qed

text \<open>
  C7.  The payload is not \<open>Macro: \<close> followed by the name for every name: the name is
  appended as a C string, so a name with a NUL byte is cut at the first NUL.
\<close>

theorem ExecTranslatorMacro_payload_counterexample:
  "calls (snd (ExecTranslatorMacro stub_host stub_os [Str [CHR ''A'', CHR 0x00, CHR ''B'']] obj0 world0))
     = [Call_FindWindowA None ''Translator CopyData Target'',
        Call_SetLastError 0,
        Call_SendMessageTimeoutA 0x5000 WM_COPYDATA 0
          \<lparr>dwData = 24, cbData = 8, lpData = ''Macro: A''\<rparr> SMTO_ABORTIFHUNG 5000 0,
        Call_GetLastError]
   \<and> ''Macro: A'' \<noteq> ''Macro: '' @ [CHR ''A'', CHR 0x00, CHR ''B'']"
  by (simp add: ExecTranslatorMacro_def invoke_def c_str_widowName c_str_Cons c_str_Nil strlen_def
      stub_host_def stub_os_def stub0_def world0_def CopyDataID_def ERROR_SUCCESS_def Let_def)

text \<open>
  C7, as the code has it.  With one argument and the target window found, the calls
  after the lookup are: \<open>SetLastError(ERROR_SUCCESS)\<close>, one
  \<open>SendMessageTimeoutA\<close> to the window found, with message \<open>WM_COPYDATA\<close>, flag
  \<open>SMTO_ABORTIFHUNG\<close>, timeout 5000 and a \<open>COPYDATASTRUCT\<close> of identifier 24 whose
  data are the bytes \<open>Macro: \<close> followed by the name up to its first NUL and whose
  size is their number, and \<open>GetLastError\<close>.  For every name without a NUL byte, the
  empty name included, the data are exactly \<open>Macro: \<close> followed by the name.
\<close>

theorem ExecTranslatorMacro_payload:
  assumes arity: "length info = 1"
    and found: "FindWindowA os None ''Translator CopyData Target'' (os_state w) = (hwnd, s1)"
               "hwnd \<noteq> 0"
    and conv: "To_Utf8String host (info ! 0) = Some name"
  shows "calls (snd (ExecTranslatorMacro host os info obj w))
           = calls w @
             [Call_FindWindowA None ''Translator CopyData Target'',
              Call_SetLastError ERROR_SUCCESS,
              Call_SendMessageTimeoutA hwnd WM_COPYDATA 0
                \<lparr>dwData = 24, cbData = of_nat (length (''Macro: '' @ c_str name)),
                 lpData = ''Macro: '' @ c_str name\<rparr>
                SMTO_ABORTIFHUNG 5000 0,
              Call_GetLastError]
       \<and> (CHR 0x00 \<notin> set name \<longrightarrow>
            calls (snd (ExecTranslatorMacro host os info obj w))
              = calls w @
                [Call_FindWindowA None ''Translator CopyData Target'',
                 Call_SetLastError ERROR_SUCCESS,
                 Call_SendMessageTimeoutA hwnd WM_COPYDATA 0
                   \<lparr>dwData = 24, cbData = of_nat (length (''Macro: '' @ name)),
                    lpData = ''Macro: '' @ name\<rparr>
                   SMTO_ABORTIFHUNG 5000 0,
                 Call_GetLastError])"
proof -
  obtain ret s2 where send:
    "SendMessageTimeoutA os hwnd WM_COPYDATA 0
       \<lparr>dwData = 24, cbData = of_nat (length (''Macro: '' @ c_str name)),
        lpData = ''Macro: '' @ c_str name\<rparr>
       SMTO_ABORTIFHUNG 5000 0 (SetLastError os ERROR_SUCCESS s1) = (ret, s2)"
    by (cases "SendMessageTimeoutA os hwnd WM_COPYDATA 0
       \<lparr>dwData = 24, cbData = of_nat (length (''Macro: '' @ c_str name)),
        lpData = ''Macro: '' @ c_str name\<rparr>
       SMTO_ABORTIFHUNG 5000 0 (SetLastError os ERROR_SUCCESS s1)") blast
  have "calls (snd (ExecTranslatorMacro host os info obj w))
           = calls w @
             [Call_FindWindowA None ''Translator CopyData Target'',
              Call_SetLastError ERROR_SUCCESS,
              Call_SendMessageTimeoutA hwnd WM_COPYDATA 0
                \<lparr>dwData = 24, cbData = of_nat (length (''Macro: '' @ c_str name)),
                 lpData = ''Macro: '' @ c_str name\<rparr>
                SMTO_ABORTIFHUNG 5000 0,
              Call_GetLastError]"
    using ExecTranslatorMacro_found [OF arity found conv send, of obj] by simp
  then show ?thesis by (simp add: c_str_no_NUL)
qed

theorem ExecTranslatorMacro_payload_witness:
  "calls (snd (ExecTranslatorMacro stub_host stub_os [Str ''Foo''] obj0 world0))
     = [Call_FindWindowA None ''Translator CopyData Target'',
        Call_SetLastError 0,
        Call_SendMessageTimeoutA 0x5000 0x4A 0
          \<lparr>dwData = 24, cbData = 10, lpData = ''Macro: Foo''\<rparr> 2 5000 0,
        Call_GetLastError]
   \<and> calls (snd (ExecTranslatorMacro stub_host stub_os [Str ''''] obj0 world0))
     = [Call_FindWindowA None ''Translator CopyData Target'',
        Call_SetLastError 0,
        Call_SendMessageTimeoutA 0x5000 0x4A 0
          \<lparr>dwData = 24, cbData = 7, lpData = ''Macro: ''\<rparr> 2 5000 0,
        Call_GetLastError]"
proof -
  have arity: "length [Str n] = 1" for n by simp
  have found: "FindWindowA stub_os None ''Translator CopyData Target'' (os_state world0)
                = (0x5000, stub0)"
    by (simp add: stub_os_def stub0_def world0_def)
  have nz: "(0x5000 :: ptr) \<noteq> 0" by simp
  have conv: "To_Utf8String stub_host ([Str n] ! 0) = Some n" for n
    by (simp add: stub_host_def)
  show ?thesis
    using ExecTranslatorMacro_payload [OF arity found nz conv, of "''Foo''" obj0]
          ExecTranslatorMacro_payload [OF arity found nz conv, of "''''" obj0]
    by (simp add: world0_def ERROR_SUCCESS_def WM_COPYDATA_def SMTO_ABORTIFHUNG_def
        c_str_Cons c_str_Nil)
qed

text \<open>
  C2.  With one argument and the target window found, \<open>ExecTranslatorMacro\<close> throws
  its delivery message if and only if the send returned 0 and the last error read after
  it is not \<open>ERROR_SUCCESS\<close>, which is when \<open>HRESULT_FROM_WIN32\<close> of it is a failure
  code; the message ends with that \<open>HRESULT\<close> in hexadecimal, whose low 16 bits are
  those of the error code.  In every other case, and so when the send returned 0 and the
  last error is \<open>ERROR_SUCCESS\<close>, the method returns normally, as after a delivery.
\<close>

theorem ExecTranslatorMacro_delivery_failure:
  assumes arity: "length info = 1"
    and found: "FindWindowA os None ''Translator CopyData Target'' (os_state w) = (hwnd, s1)"
               "hwnd \<noteq> 0"
    and conv: "To_Utf8String host (info ! 0) = Some name"
    and send: "SendMessageTimeoutA os hwnd WM_COPYDATA 0
                 \<lparr>dwData = 24, cbData = of_nat (length (''Macro: '' @ c_str name)),
                  lpData = ''Macro: '' @ c_str name\<rparr>
                 SMTO_ABORTIFHUNG 5000 0 (SetLastError os ERROR_SUCCESS s1) = (ret, s2)"
    and last: "GetLastError os s2 = err"
  shows "(fst (ExecTranslatorMacro host os info obj w)
            = Throws (''Failed to execute Translator Macro (0x''
                       @ hexX (unat (HRESULT_FROM_WIN32 err)) @ '')'')
          \<longleftrightarrow> ret = 0 \<and> err \<noteq> ERROR_SUCCESS)
       \<and> (fst (ExecTranslatorMacro host os info obj w) = Returns Undefined
          \<longleftrightarrow> \<not> (ret = 0 \<and> err \<noteq> ERROR_SUCCESS))
       \<and> (ret = 0 \<and> err = ERROR_SUCCESS
          \<longrightarrow> fst (ExecTranslatorMacro host os info obj w) = Returns Undefined)
       \<and> (FAILED (HRESULT_FROM_WIN32 err) \<longleftrightarrow> err \<noteq> ERROR_SUCCESS)
       \<and> HRESULT_FROM_WIN32 err AND 0xFFFF = err AND 0xFFFF"
  using ExecTranslatorMacro_found [OF arity found conv send, of obj] last
  by (simp add: HRESULT_FROM_WIN32_low_word FAILED_HRESULT_FROM_WIN32)

theorem ExecTranslatorMacro_delivery_failure_witness:
  "fst (ExecTranslatorMacro stub_host stub_os [Str ''Foo''] obj0
          (world0\<lparr>os_state := stub0\<lparr>send_ret := 0, send_err := 1460\<rparr>\<rparr>))
     = Throws ''Failed to execute Translator Macro (0x800705B4)''
   \<and> fst (ExecTranslatorMacro stub_host stub_os [Str ''Foo''] obj0
          (world0\<lparr>os_state := stub0\<lparr>send_ret := 0, send_err := 0\<rparr>\<rparr>))
     = Returns Undefined"
proof -
  let ?cds = "\<lparr>dwData = 24, cbData = of_nat (length (''Macro: '' @ c_str ''Foo'')),
                lpData = ''Macro: '' @ c_str ''Foo''\<rparr>"
  let ?w = "\<lambda>e. world0\<lparr>os_state := stub0\<lparr>send_ret := 0, send_err := e\<rparr>\<rparr>"
  have arity: "length [Str ''Foo''] = 1" by simp
  have found: "FindWindowA stub_os None ''Translator CopyData Target'' (os_state (?w e))
                 = (0x5000, stub0\<lparr>send_ret := 0, send_err := e\<rparr>)" for e
    by (simp add: stub_os_def stub0_def world0_def)
  have nz: "(0x5000 :: ptr) \<noteq> 0" by simp
  have conv: "To_Utf8String stub_host ([Str ''Foo''] ! 0) = Some ''Foo''"
    by (simp add: stub_host_def)
  have send: "SendMessageTimeoutA stub_os 0x5000 WM_COPYDATA 0 ?cds SMTO_ABORTIFHUNG 5000 0
                (SetLastError stub_os ERROR_SUCCESS (stub0\<lparr>send_ret := 0, send_err := e\<rparr>))
              = (0, stub0\<lparr>send_ret := 0, send_err := e, last_error := e\<rparr>)" for e
    by (simp add: stub_os_def stub0_def)
  have last: "GetLastError stub_os (stub0\<lparr>send_ret := 0, send_err := e, last_error := e\<rparr>) = e"
    for e
    by (simp add: stub_os_def)
  show ?thesis
    using ExecTranslatorMacro_delivery_failure
            [OF arity found [of 1460] nz conv send [of 1460] last [of 1460], where obj = obj0]
          ExecTranslatorMacro_delivery_failure
            [OF arity found [of 0] nz conv send [of 0] last [of 0], where obj = obj0]
    by (simp add: hexX_ERROR_TIMEOUT ERROR_SUCCESS_def)
qed

section \<open>The binding\<close>

text \<open>
  C10.  \<open>SetVolume\<close>, \<open>SetMuted\<close> and \<open>ExecTranslatorMacro\<close>, called with a number of
  arguments other than 1, throw their arity message and leave the world as it was: no
  conversion, no range check, no window lookup and no operating-system call happens
  before the arity check.
\<close>

theorem arity_checked_first:
  assumes "length info \<noteq> 1"
  shows "SetVolume host os info obj w = (Throws ''Exactly one number parameter is required.'', w)
       \<and> SetMuted host os info obj w = (Throws ''Exactly one boolean parameter is required.'', w)
       \<and> ExecTranslatorMacro host os info obj w
           = (Throws ''Exactly one string parameter is required.'', w)"
  using assms by (simp add: SetVolume_def SetMuted_def ExecTranslatorMacro_def)

theorem arity_checked_first_witness:
  "SetVolume stub_host stub_os [] obj0 world0
     = (Throws ''Exactly one number parameter is required.'', world0)
   \<and> SetVolume stub_host stub_os [Num (Finite 5), Num (Finite 0.5)] obj0 world0
     = (Throws ''Exactly one number parameter is required.'', world0)
   \<and> SetMuted stub_host stub_os [Bool True, Bool True] obj0 world0
     = (Throws ''Exactly one boolean parameter is required.'', world0)
   \<and> ExecTranslatorMacro stub_host stub_os [] obj0
        (world0\<lparr>os_state := stub0\<lparr>windows := []\<rparr>\<rparr>)
     = (Throws ''Exactly one string parameter is required.'',
        world0\<lparr>os_state := stub0\<lparr>windows := []\<rparr>\<rparr>)"
  using arity_checked_first [of "[]" stub_host stub_os obj0 world0]
        arity_checked_first [of "[Num (Finite 5), Num (Finite 0.5)]" stub_host stub_os obj0 world0]
        arity_checked_first [of "[Bool True, Bool True]" stub_host stub_os obj0 world0]
        arity_checked_first [of "[]" stub_host stub_os obj0 "world0\<lparr>os_state := stub0\<lparr>windows := []\<rparr>\<rparr>"]
  by simp

text \<open>
  C8.  The binding does not expose an operation named \<open>execMacro\<close>: the fifth method
  is registered as \<open>execTranslatorMacro\<close>.  \<open>isMuted\<close> hands the script the \<open>BOOL\<close>
  as a number, not a boolean.  And an operation can end without a value and without an
  error message: \<open>setVolume\<close> and \<open>execTranslatorMacro\<close>, given a symbol, end the
  process.
\<close>

theorem binding_surface_counterexample:
  "PrototypeMethods (the (Init ''VolumeControl'')) ''execMacro'' = None
   \<and> PrototypeMethods (the (Init ''VolumeControl'')) ''execTranslatorMacro''
       = Some cb_ExecTranslatorMacro
   \<and> fst (run_callback stub_host stub_os cb_IsMuted [] obj0
            (world0\<lparr>os_state := stub0\<lparr>mute := 1\<rparr>\<rparr>))
       = Returns (Number_int32 1)
   \<and> fst (run_callback stub_host stub_os cb_SetVolume [Symbol] obj0 world0) = Aborts
   \<and> fst (run_callback stub_host stub_os cb_ExecTranslatorMacro [Symbol] obj0 world0) = Aborts"
  by (simp add: Init_template run_callback_def IsMuted_outcome SetVolume_outcome
      ExecTranslatorMacro_outcome stub_host_def stub_os_def stub0_def world0_def FAILED_def)

text \<open>
  C8, as the code has it.  \<open>Init\<close> exports one class, \<open>VolumeControl\<close>, whose call
  handler is \<open>New\<close> and whose prototype has exactly five methods: \<open>getVolume\<close>,
  \<open>setVolume\<close>, \<open>isMuted\<close>, \<open>setMuted\<close> and \<open>execTranslatorMacro\<close>, bound to the
  native functions of those names.  Called with \<open>new\<close>, the class constructs an object
  when the three construction steps succeed, and throws the failing step's message
  otherwise; called as a function it throws.  \<open>getVolume\<close> returns the \<open>float\<close> as a
  number, \<open>isMuted\<close> returns the \<open>BOOL\<close> the operating system reported as a 32-bit
  integer, unchanged, and the three others return undefined.  Every failed
  operating-system call is thrown as the step's message followed by \<open> (0x\<close>, the code
  written by \<open>hexX\<close>, and \<open>)\<close>: the \<open>HRESULT\<close> of an audio call,
  \<open>HRESULT_FROM_WIN32\<close> of the last error for the send; a wrong number of arguments, a
  volume out of range and a missing window are thrown with their own message.
  \<open>hexX\<close> writes the base-16 digits of the code, most significant first, with the
  characters \<open>0\<close> to \<open>9\<close> and \<open>A\<close> to \<open>F\<close>.  The one outcome that is neither a value
  nor a message is the end of the process, when \<open>setVolume\<close>, called with one argument, or
  \<open>execTranslatorMacro\<close>, called with one argument and with the window found, gets an
  argument the host cannot convert.
\<close>

theorem binding_surface:
  "dom Init = {''VolumeControl''}
   \<and> (\<exists>tpl. Init ''VolumeControl'' = Some tpl
         \<and> CallHandler tpl = cb_New
         \<and> ClassName tpl = ''VolumeControl''
         \<and> dom (PrototypeMethods tpl)
             = {''getVolume'', ''setVolume'', ''isMuted'', ''setMuted'', ''execTranslatorMacro''}
         \<and> PrototypeMethods tpl ''getVolume'' = Some cb_GetVolume
         \<and> PrototypeMethods tpl ''setVolume'' = Some cb_SetVolume
         \<and> PrototypeMethods tpl ''isMuted'' = Some cb_IsMuted
         \<and> PrototypeMethods tpl ''setMuted'' = Some cb_SetMuted
         \<and> PrototypeMethods tpl ''execTranslatorMacro'' = Some cb_ExecTranslatorMacro)
   \<and> run_constructor os cb_New False w
       = ((Throws ''The constructor cannot be called as a function.'', None), w)
   \<and> fst (run_constructor os cb_New True w) =
       (case CoCreateInstance os (os_state w) of
          ((hr1, enumerator), s1) \<Rightarrow>
            if FAILED hr1
            then (Throws (''Error when trying to get a handle to MMDeviceEnumerator device enumerator (0x''
                           @ hexX (unat hr1) @ '')''), None)
            else
              (case GetDefaultAudioEndpoint os enumerator eRender eConsole s1 of
                 ((hr2, dflt), s2) \<Rightarrow>
                   if FAILED hr2
                   then (Throws (''Error when trying to get a handle to the default audio enpoint (0x''
                                  @ hexX (unat hr2) @ '')''), None)
                   else
                     (case Activate os dflt s2 of
                        ((hr3, ep), s3) \<Rightarrow>
                          if FAILED hr3
                          then (Throws (''Error when trying to get a handle to the volume endpoint (0x''
                                         @ hexX (unat hr3) @ '')''), None)
                          else (Returns This,
                                Some \<lparr>VolumeControlWrapper.device =
                                        \<lparr>VolumeControl.device = ep\<rparr>\<rparr>))))
   \<and> fst (run_callback host os cb_GetVolume info obj w) =
       (case GetMasterVolumeLevelScalar os (VolumeControl.device (VolumeControlWrapper.device obj))
               (os_state w) of
          ((hr, out), s) \<Rightarrow>
            if FAILED hr then Throws (''getting volume (0x'' @ hexX (unat hr) @ '')'')
            else Returns (Number_double (case out of None \<Rightarrow> Finite 0 | Some v \<Rightarrow> v)))
   \<and> fst (run_callback host os cb_IsMuted info obj w) =
       (case GetMute os (VolumeControl.device (VolumeControlWrapper.device obj)) (os_state w) of
          ((hr, out), s) \<Rightarrow>
            if FAILED hr then Throws (''getting muted state (0x'' @ hexX (unat hr) @ '')'')
            else Returns (Number_int32 (case out of None \<Rightarrow> 0 | Some m \<Rightarrow> m)))
   \<and> fst (run_callback host os cb_SetMuted info obj w) =
       (if length info \<noteq> 1 then Throws ''Exactly one boolean parameter is required.''
        else
          (case SetMute os (VolumeControl.device (VolumeControlWrapper.device obj))
                  (BOOL_of_bool (To_bool host (info ! 0))) (os_state w) of
             (hr, s) \<Rightarrow>
               if FAILED hr then Throws (''setting mute (0x'' @ hexX (unat hr) @ '')'')
               else Returns Undefined))
   \<and> fst (run_callback host os cb_SetVolume info obj w) =
       (if length info \<noteq> 1 then Throws ''Exactly one number parameter is required.''
        else
          (case To_double host (info ! 0) of
             None \<Rightarrow> Aborts
           | Some x \<Rightarrow>
               if float_less (double_to_float host x) (Finite 0)
                  \<or> float_less (Finite 1) (double_to_float host x)
               then Throws ''Volume needs to be between 0.0 and 1.0 inclusive''
               else
                 (case SetMasterVolumeLevelScalar os
                         (VolumeControl.device (VolumeControlWrapper.device obj))
                         (double_to_float host x) (os_state w) of
                    (hr, s) \<Rightarrow>
                      if FAILED hr then Throws (''setting volume (0x'' @ hexX (unat hr) @ '')'')
                      else Returns Undefined)))
   \<and> fst (run_callback host os cb_ExecTranslatorMacro info obj w) =
       (if length info \<noteq> 1 then Throws ''Exactly one string parameter is required.''
        else
          (case FindWindowA os None ''Translator CopyData Target'' (os_state w) of
             (hwnd, s1) \<Rightarrow>
               if hwnd = 0
               then Throws ''Could not find running Translator instance to send message to''
               else
                 (case To_Utf8String host (info ! 0) of
                    None \<Rightarrow> Aborts
                  | Some name \<Rightarrow>
                      (case SendMessageTimeoutA os hwnd WM_COPYDATA 0
                              \<lparr>dwData = 24,
                               cbData = of_nat (length (''Macro: '' @ c_str name)),
                               lpData = ''Macro: '' @ c_str name\<rparr>
                              SMTO_ABORTIFHUNG 5000 0 (SetLastError os ERROR_SUCCESS s1) of
                         (ret, s2) \<Rightarrow>
                           if ret = 0 \<and> GetLastError os s2 \<noteq> ERROR_SUCCESS
                           then Throws (''Failed to execute Translator Macro (0x''
                                   @ hexX (unat (HRESULT_FROM_WIN32 (GetLastError os s2))) @ '')'')
                           else Returns Undefined))))
   \<and> (\<exists>ds. hexX (unat (code :: HRESULT)) = map hex_digit ds \<and> ds \<noteq> [] \<and> (\<forall>d\<in>set ds. d < 16)
             \<and> foldl (\<lambda>a d. 16 * a + d) 0 ds = unat code)
   \<and> set (hexX (unat code)) \<subseteq> set ''0123456789ABCDEF''"
proof (intro conjI)
  show "dom Init = {''VolumeControl''}"
    by (simp add: Init_template)
  show "\<exists>tpl. Init ''VolumeControl'' = Some tpl
         \<and> CallHandler tpl = cb_New
         \<and> ClassName tpl = ''VolumeControl''
         \<and> dom (PrototypeMethods tpl)
             = {''getVolume'', ''setVolume'', ''isMuted'', ''setMuted'', ''execTranslatorMacro''}
         \<and> PrototypeMethods tpl ''getVolume'' = Some cb_GetVolume
         \<and> PrototypeMethods tpl ''setVolume'' = Some cb_SetVolume
         \<and> PrototypeMethods tpl ''isMuted'' = Some cb_IsMuted
         \<and> PrototypeMethods tpl ''setMuted'' = Some cb_SetMuted
         \<and> PrototypeMethods tpl ''execTranslatorMacro'' = Some cb_ExecTranslatorMacro"
  proof (intro exI conjI)
    show "Init ''VolumeControl'' = Some
       \<lparr>CallHandler = cb_New, ClassName = ''VolumeControl'', InternalFieldCount = 1,
        PrototypeMethods =
          [''getVolume'' \<mapsto> cb_GetVolume, ''setVolume'' \<mapsto> cb_SetVolume,
           ''isMuted'' \<mapsto> cb_IsMuted, ''setMuted'' \<mapsto> cb_SetMuted,
           ''execTranslatorMacro'' \<mapsto> cb_ExecTranslatorMacro]\<rparr>"
      by (simp add: Init_template)
  qed (simp_all add: insert_commute)
  show "run_constructor os cb_New False w
       = ((Throws ''The constructor cannot be called as a function.'', None), w)"
    by (simp add: run_constructor_def New_outcome(1))
  show "fst (run_constructor os cb_New True w) =
       (case CoCreateInstance os (os_state w) of
          ((hr1, enumerator), s1) \<Rightarrow>
            if FAILED hr1
            then (Throws (''Error when trying to get a handle to MMDeviceEnumerator device enumerator (0x''
                           @ hexX (unat hr1) @ '')''), None)
            else
              (case GetDefaultAudioEndpoint os enumerator eRender eConsole s1 of
                 ((hr2, dflt), s2) \<Rightarrow>
                   if FAILED hr2
                   then (Throws (''Error when trying to get a handle to the default audio enpoint (0x''
                                  @ hexX (unat hr2) @ '')''), None)
                   else
                     (case Activate os dflt s2 of
                        ((hr3, ep), s3) \<Rightarrow>
                          if FAILED hr3
                          then (Throws (''Error when trying to get a handle to the volume endpoint (0x''
                                         @ hexX (unat hr3) @ '')''), None)
                          else (Returns This,
                                Some \<lparr>VolumeControlWrapper.device =
                                        \<lparr>VolumeControl.device = ep\<rparr>\<rparr>))))"
    unfolding run_constructor_def constructor_callback.case by (rule New_outcome(2))
  show "fst (run_callback host os cb_GetVolume info obj w) =
       (case GetMasterVolumeLevelScalar os (VolumeControl.device (VolumeControlWrapper.device obj))
               (os_state w) of
          ((hr, out), s) \<Rightarrow>
            if FAILED hr then Throws (''getting volume (0x'' @ hexX (unat hr) @ '')'')
            else Returns (Number_double (case out of None \<Rightarrow> Finite 0 | Some v \<Rightarrow> v)))"
    unfolding run_callback_def callback.case by (rule GetVolume_outcome)
  show "fst (run_callback host os cb_IsMuted info obj w) =
       (case GetMute os (VolumeControl.device (VolumeControlWrapper.device obj)) (os_state w) of
          ((hr, out), s) \<Rightarrow>
            if FAILED hr then Throws (''getting muted state (0x'' @ hexX (unat hr) @ '')'')
            else Returns (Number_int32 (case out of None \<Rightarrow> 0 | Some m \<Rightarrow> m)))"
    unfolding run_callback_def callback.case by (rule IsMuted_outcome)
  show "fst (run_callback host os cb_SetMuted info obj w) =
       (if length info \<noteq> 1 then Throws ''Exactly one boolean parameter is required.''
        else
          (case SetMute os (VolumeControl.device (VolumeControlWrapper.device obj))
                  (BOOL_of_bool (To_bool host (info ! 0))) (os_state w) of
             (hr, s) \<Rightarrow>
               if FAILED hr then Throws (''setting mute (0x'' @ hexX (unat hr) @ '')'')
               else Returns Undefined))"
    unfolding run_callback_def callback.case by (rule SetMuted_outcome)
  show "fst (run_callback host os cb_SetVolume info obj w) =
       (if length info \<noteq> 1 then Throws ''Exactly one number parameter is required.''
        else
          (case To_double host (info ! 0) of
             None \<Rightarrow> Aborts
           | Some x \<Rightarrow>
               if float_less (double_to_float host x) (Finite 0)
                  \<or> float_less (Finite 1) (double_to_float host x)
               then Throws ''Volume needs to be between 0.0 and 1.0 inclusive''
               else
                 (case SetMasterVolumeLevelScalar os
                         (VolumeControl.device (VolumeControlWrapper.device obj))
                         (double_to_float host x) (os_state w) of
                    (hr, s) \<Rightarrow>
                      if FAILED hr then Throws (''setting volume (0x'' @ hexX (unat hr) @ '')'')
                      else Returns Undefined)))"
    unfolding run_callback_def callback.case by (rule SetVolume_outcome)
  show "fst (run_callback host os cb_ExecTranslatorMacro info obj w) =
       (if length info \<noteq> 1 then Throws ''Exactly one string parameter is required.''
        else
          (case FindWindowA os None ''Translator CopyData Target'' (os_state w) of
             (hwnd, s1) \<Rightarrow>
               if hwnd = 0
               then Throws ''Could not find running Translator instance to send message to''
               else
                 (case To_Utf8String host (info ! 0) of
                    None \<Rightarrow> Aborts
                  | Some name \<Rightarrow>
                      (case SendMessageTimeoutA os hwnd WM_COPYDATA 0
                              \<lparr>dwData = 24,
                               cbData = of_nat (length (''Macro: '' @ c_str name)),
                               lpData = ''Macro: '' @ c_str name\<rparr>
                              SMTO_ABORTIFHUNG 5000 0 (SetLastError os ERROR_SUCCESS s1) of
                         (ret, s2) \<Rightarrow>
                           if ret = 0 \<and> GetLastError os s2 \<noteq> ERROR_SUCCESS
                           then Throws (''Failed to execute Translator Macro (0x''
                                   @ hexX (unat (HRESULT_FROM_WIN32 (GetLastError os s2))) @ '')'')
                           else Returns Undefined))))"
    unfolding run_callback_def callback.case by (rule ExecTranslatorMacro_outcome)
  show "\<exists>ds. hexX (unat code) = map hex_digit ds \<and> ds \<noteq> [] \<and> (\<forall>d\<in>set ds. d < 16)
             \<and> foldl (\<lambda>a d. 16 * a + d) 0 ds = unat code"
    by (rule hexX_digits)
  show "set (hexX (unat code)) \<subseteq> set ''0123456789ABCDEF''"
    by (rule hexX_chars)
qed

theorem binding_surface_witness:
  "fst (run_constructor stub_os cb_New True world0) = (Returns This, Some obj0)
   \<and> fst (run_constructor stub_os cb_New True
            (world0\<lparr>os_state := stub0\<lparr>endpoint_hr := 0x80070490\<rparr>\<rparr>))
       = (Throws ''Error when trying to get a handle to the default audio enpoint (0x80070490)'',
          None)
   \<and> fst (run_callback stub_host stub_os cb_GetVolume [] obj0 world0)
       = Returns (Number_double (Finite 0.25))
   \<and> fst (run_callback stub_host stub_os cb_IsMuted [] obj0 world0) = Returns (Number_int32 0)
   \<and> fst (run_callback stub_host stub_os cb_SetMuted [Bool True] obj0 world0) = Returns Undefined
   \<and> fst (run_callback stub_host stub_os cb_SetVolume [Num (Finite 0.5)] obj0 world0)
       = Returns Undefined
   \<and> fst (run_callback stub_host stub_os cb_SetVolume [Num (Finite 1.5)] obj0 world0)
       = Throws ''Volume needs to be between 0.0 and 1.0 inclusive''
   \<and> fst (run_callback stub_host stub_os cb_ExecTranslatorMacro [Str ''Foo''] obj0
            (world0\<lparr>os_state := stub0\<lparr>send_ret := 0, send_err := 1460\<rparr>\<rparr>))
       = Throws ''Failed to execute Translator Macro (0x800705B4)''
   \<and> set ''80070490'' \<subseteq> set ''0123456789ABCDEF''"
proof -
  note defs = stub_host_def stub_os_def stub0_def world0_def obj0_def vc0_def FAILED_def
  note b0 = binding_surface [where host = stub_host and os = stub_os and obj = obj0
                               and w = world0 and info = "[]" and code = "0x80070490"]
  have c1: "fst (run_constructor stub_os cb_New True world0) = (Returns This, Some obj0)"
    using b0 by (simp add: defs)
  have c2: "fst (run_constructor stub_os cb_New True
            (world0\<lparr>os_state := stub0\<lparr>endpoint_hr := 0x80070490\<rparr>\<rparr>))
       = (Throws ''Error when trying to get a handle to the default audio enpoint (0x80070490)'',
          None)"
    using binding_surface [where host = stub_host and os = stub_os and obj = obj0
            and w = "world0\<lparr>os_state := stub0\<lparr>endpoint_hr := 0x80070490\<rparr>\<rparr>"
            and info = "[]" and code = 0]
    by (simp add: defs hexX_E_NOTFOUND)
  have g: "fst (run_callback stub_host stub_os cb_GetVolume [] obj0 world0)
       = Returns (Number_double (Finite 0.25))"
    using b0 by (simp add: defs)
  have i: "fst (run_callback stub_host stub_os cb_IsMuted [] obj0 world0) = Returns (Number_int32 0)"
    using b0 by (simp add: defs)
  have m: "fst (run_callback stub_host stub_os cb_SetMuted [Bool True] obj0 world0)
       = Returns Undefined"
    using binding_surface [where host = stub_host and os = stub_os and obj = obj0
                             and w = world0 and info = "[Bool True]" and code = 0]
    by (simp add: defs)
  have v1: "fst (run_callback stub_host stub_os cb_SetVolume [Num (Finite 0.5)] obj0 world0)
       = Returns Undefined"
    using binding_surface [where host = stub_host and os = stub_os and obj = obj0
                             and w = world0 and info = "[Num (Finite 0.5)]" and code = 0]
    by (simp add: defs)
  have v2: "fst (run_callback stub_host stub_os cb_SetVolume [Num (Finite 1.5)] obj0 world0)
       = Throws ''Volume needs to be between 0.0 and 1.0 inclusive''"
    using binding_surface [where host = stub_host and os = stub_os and obj = obj0
                             and w = world0 and info = "[Num (Finite 1.5)]" and code = 0]
    by (simp add: defs)
  have x: "fst (run_callback stub_host stub_os cb_ExecTranslatorMacro [Str ''Foo''] obj0
            (world0\<lparr>os_state := stub0\<lparr>send_ret := 0, send_err := 1460\<rparr>\<rparr>))
       = Throws ''Failed to execute Translator Macro (0x800705B4)''"
    using binding_surface [where host = stub_host and os = stub_os and obj = obj0
            and w = "world0\<lparr>os_state := stub0\<lparr>send_ret := 0, send_err := 1460\<rparr>\<rparr>"
            and info = "[Str ''Foo'']" and code = 0]
    by (simp add: defs hexX_ERROR_TIMEOUT ERROR_SUCCESS_def)
  have h: "set ''80070490'' \<subseteq> set ''0123456789ABCDEF''"
    using b0 by (simp add: hexX_E_NOTFOUND)
  from c1 c2 g i m v1 v2 x h show ?thesis by blast
qed

end
